theory Spec2Isabelle
  imports Complex_Main "HOL-Library.Log_Nat"
begin

section \<open>The mermaid-to-svg worker: cache-backed render pipeline\<close>

text \<open>
  The development embeds \<^verbatim>\<open>src/index.ts\<close> in its version with cache statistics (the
  second of the two versions the file holds; the first has no Stats Store and no debug
  endpoints). The worker is one handler, \<^verbatim>\<open>fetch(request, env, ctx)\<close>, and four
  helpers over the KV namespace \<^verbatim>\<open>CACHE_STATS\<close>.

  What the handler calls but the repository does not define is kept outside the model
  and enters it as data:
  \<^item> the URL parser: a request carries its URL string as received and the
    \<^verbatim>\<open>pathname\<close> and \<^verbatim>\<open>searchParams\<close> that \<^verbatim>\<open>new URL(request.url)\<close> gives;
  \<^item> \<^verbatim>\<open>decompressFromEncodedURIComponent\<close> of lz-string, the remote browser session
    that renders, and the clock are fields of the environment;
  \<^item> every call of the KV namespace and every \<^verbatim>\<open>match\<close> and \<^verbatim>\<open>put\<close> of the edge
    cache may reject: the environment says which calls reject during one invocation of
    the handler (each is called at most once per invocation);
  \<^item> \<^verbatim>\<open>caches.default\<close> of the Workers runtime has \<^verbatim>\<open>match\<close>, \<^verbatim>\<open>put\<close> and
    \<^verbatim>\<open>delete\<close> only: \<^verbatim>\<open>keys\<close> is not implemented there, and calling it throws.
  The KV value under the key \<^verbatim>\<open>'stats'\<close> is only ever written by the worker, as
  \<^verbatim>\<open>JSON.stringify\<close> of a \<^verbatim>\<open>CacheStats\<close>; the model keeps the record this text
  denotes, and a JSON response body is kept as the value that is stringified. The KV
  namespace is one cell that is read as last written. The counters are JavaScript
  numbers holding non-negative integers; integer arithmetic on them is exact below
  \<open>2^53\<close> and the model takes them as natural numbers. The quotient behind
  \<^verbatim>\<open>hitRate\<close> is not an integer: it is rounded as binary64 arithmetic rounds.
\<close>

subsection \<open>Data model\<close>

record Request =
  url :: string
  http_method :: string  \<comment> \<open>\<^verbatim>\<open>request.method\<close>\<close>
  pathname :: string
  searchParams :: "(string \<times> string) list"

datatype json =
    JString string
  | JNumber nat
  | JArray "json list"
  | JObject "(string \<times> json) list"

datatype body =
    Text string
  | Json json  \<comment> \<open>\<^verbatim>\<open>JSON.stringify(value, null, 2)\<close>\<close>

text \<open>
  A response holds the status and the headers the handler sets (status 200 when it
  sets none); the headers the runtime adds on its own are not part of it.
\<close>

record Response =
  body :: body
  status :: nat
  headers :: "(string \<times> string) list"

record CacheStats =
  hits :: nat
  misses :: nat
  lastReset :: string

text \<open>What a rejected promise or a throw carries.\<close>

datatype exn =
    KVGetRejected
  | KVPutRejected
  | CacheMatchRejected
  | CacheKeysNotImplemented
  | BrowserError string

text \<open>
  The environment of one invocation: the bindings of \<^verbatim>\<open>Env\<close> and the platform
  around them. \<open>BROWSER\<close> stands for the whole \<^verbatim>\<open>try\<close> block (launch, new page,
  script tag, \<^verbatim>\<open>mermaid.render\<close>, close): it yields the value assigned to
  \<^verbatim>\<open>svg\<close>, which may be \<^verbatim>\<open>undefined\<close>, or the error thrown.
\<close>

record Env =
  BROWSER :: "string \<Rightarrow> string \<Rightarrow> exn + string option"
  decompressFromEncodedURIComponent :: "string \<Rightarrow> string option"
  now :: string  \<comment> \<open>\<^verbatim>\<open>new Date().toISOString()\<close>\<close>
  kv_get_rejects :: bool
  kv_put_rejects :: bool
  cache_match_rejects :: bool
  cache_put_rejects :: bool

text \<open>The state outside the handler: the KV cell and \<^verbatim>\<open>caches.default\<close>.\<close>

record World =
  kv_stats :: "CacheStats option"
  cache :: "(Request \<times> Response) list"

text \<open>The calls the handler makes on the platform, in the order it makes them.\<close>

datatype event =
    KV_get
  | KV_put CacheStats
  | Cache_match string
  | Cache_keys
  | Browser_render string string
  | Console_log string
  | Console_error exn
  | Wait_until_cache_put Request Response

subsection \<open>Asynchronous code as state passing\<close>

text \<open>
  An \<^verbatim>\<open>async\<close> function takes the world and gives its outcome (\<open>Inl\<close> a rejection),
  the world it leaves and the calls it made.
\<close>

type_synonym 'a io = "World \<Rightarrow> (exn + 'a) \<times> World \<times> event list"

definition return :: "'a \<Rightarrow> 'a io" where
  "return x w = (Inr x, w, [])"

definition await :: "'a io \<Rightarrow> ('a \<Rightarrow> 'b io) \<Rightarrow> 'b io" where
  "await m k w =
     (case m w of
        (Inl e, w1, t1) \<Rightarrow> (Inl e, w1, t1)
      | (Inr x, w1, t1) \<Rightarrow> (case k x w1 of (r, w2, t2) \<Rightarrow> (r, w2, t1 @ t2)))"

text \<open>\<^verbatim>\<open>try { ... } catch (err) { ... }\<close>: the outcome of the block as a value.\<close>

definition try_block :: "'a io \<Rightarrow> (exn + 'a) io" where
  "try_block m w = (case m w of (r, w1, t1) \<Rightarrow> (Inr r, w1, t1))"

definition console_log :: "string \<Rightarrow> unit io" where
  "console_log s w = (Inr (), w, [Console_log s])"

definition console_error :: "exn \<Rightarrow> unit io" where
  "console_error e w = (Inr (), w, [Console_error e])"

subsection \<open>The platform calls\<close>

definition CACHE_STATS_get :: "Env \<Rightarrow> CacheStats option io" where
  "CACHE_STATS_get env w =
     (if kv_get_rejects env then (Inl KVGetRejected, w, [KV_get])
      else (Inr (kv_stats w), w, [KV_get]))"

definition CACHE_STATS_put :: "Env \<Rightarrow> CacheStats \<Rightarrow> unit io" where
  "CACHE_STATS_put env stats w =
     (if kv_put_rejects env then (Inl KVPutRejected, w, [KV_put stats])
      else (Inr (), w\<lparr>kv_stats := Some stats\<rparr>, [KV_put stats]))"

fun lookup_url :: "string \<Rightarrow> (Request \<times> Response) list \<Rightarrow> Response option" where
  "lookup_url u [] = None"
| "lookup_url u ((k, r) # es) = (if url k = u then Some r else lookup_url u es)"

definition cache_match :: "Env \<Rightarrow> string \<Rightarrow> Response option io" where
  "cache_match env u w =
     (if cache_match_rejects env then (Inl CacheMatchRejected, w, [Cache_match u])
      else (Inr (lookup_url u (cache w)), w, [Cache_match u]))"

text \<open>
  \<^verbatim>\<open>cache.keys()\<close>: the cache of the Workers runtime does not implement it, so the
  call throws whatever the cache holds.
\<close>

definition cache_keys :: "Env \<Rightarrow> Request list io" where
  "cache_keys env w = (Inl CacheKeysNotImplemented, w, [Cache_keys])"

definition browser_render :: "Env \<Rightarrow> string \<Rightarrow> string \<Rightarrow> string option io" where
  "browser_render env mermaidString theme w =
     (BROWSER env mermaidString theme, w, [Browser_render mermaidString theme])"

text \<open>
  \<^verbatim>\<open>ctx.waitUntil(cache.put(request, response.clone()))\<close> hands the store to the
  runtime and returns at once: in the handler it is an event only. The store itself is
  \<open>cache_put\<close>, which the runtime runs after the handler has returned (\<open>settle\<close>).
\<close>

definition ctx_waitUntil_cache_put :: "Request \<Rightarrow> Response \<Rightarrow> unit io" where
  "ctx_waitUntil_cache_put request response w =
     (Inr (), w, [Wait_until_cache_put request response])"

definition cache_put :: "Env \<Rightarrow> Request \<Rightarrow> Response \<Rightarrow> World \<Rightarrow> World" where
  "cache_put env request response w =
     (if cache_put_rejects env then w
      else w\<lparr>cache := filter (\<lambda>(k, r). url k \<noteq> url request) (cache w) @ [(request, response)]\<rparr>)"

fun settle :: "Env \<Rightarrow> event list \<Rightarrow> World \<Rightarrow> World" where
  "settle env [] w = w"
| "settle env (Wait_until_cache_put request response # t) w =
     settle env t (cache_put env request response w)"
| "settle env (e # t) w = settle env t w"

subsection \<open>Numbers and strings of JavaScript\<close>

definition digit :: "nat \<Rightarrow> char" where
  "digit n = ''0123456789'' ! n"

fun string_of_nat :: "nat \<Rightarrow> string" where
  "string_of_nat n =
     (if n < 10 then [digit n] else string_of_nat (n div 10) @ [digit (n mod 10)])"

declare string_of_nat.simps [simp del]

text \<open>
  Round to nearest, ties to even: the rounding of binary64 arithmetic. \<open>binary64 q\<close> is
  the number with a 53-bit significand nearest to \<open>q\<close>; the exponent range is not
  bounded (the quotients below lie in \<open>[0, 100]\<close>, far from overflow, and reach the
  subnormal range only with counters beyond any binary64 integer).
\<close>

definition round_ties_even :: "rat \<Rightarrow> int" where
  "round_ties_even q =
     (let f = \<lfloor>q\<rfloor>; r = q - of_int f
      in if r < 1 / 2 then f else if 1 / 2 < r then f + 1 else if even f then f else f + 1)"

definition ilog2 :: "rat \<Rightarrow> int" where
  "ilog2 q =
     (case quotient_of q of (a, b) \<Rightarrow>
        let d = bitlen a - bitlen b in if 2 powi d \<le> q then d else d - 1)"

definition binary64 :: "rat \<Rightarrow> rat" where
  "binary64 q =
     (if q = 0 then 0
      else let e = ilog2 \<bar>q\<bar> - 52 in of_int (round_ties_even (q / 2 powi e)) * 2 powi e)"

definition js_divide :: "rat \<Rightarrow> rat \<Rightarrow> rat" where
  "js_divide x y = binary64 (x / y)"

definition js_times :: "rat \<Rightarrow> rat \<Rightarrow> rat" where
  "js_times x y = binary64 (x * y)"

text \<open>
  \<^verbatim>\<open>Number.prototype.toFixed(2)\<close> for a finite \<open>x\<close> below \<open>10^21\<close>: \<open>n\<close> is the
  integer with \<open>n / 100\<close> nearest to \<open>x\<close>, the larger one of two; its digits are padded to
  three and the point goes before the last two.
\<close>

definition toFixed2 :: "rat \<Rightarrow> string" where
  "toFixed2 x =
     (let s = (if x < 0 then ''-'' else '''');
          n = nat \<lfloor>\<bar>x\<bar> * 100 + 1 / 2\<rfloor>;
          m = (if n = 0 then ''0'' else string_of_nat n);
          m = (if length m \<le> 2 then replicate (3 - length m) (CHR ''0'') @ m else m);
          k = length m
      in s @ take (k - 2) m @ ''.'' @ drop (k - 2) m)"

text \<open>The decimal numeral of \<open>n / 100\<close> with two digits after the point.\<close>

definition two_decimals :: "nat \<Rightarrow> string" where
  "two_decimals n = string_of_nat (n div 100) @ ''.'' @ [digit (n div 10 mod 10), digit (n mod 10)]"

definition falsy :: "string option \<Rightarrow> bool" where
  "falsy v = (case v of None \<Rightarrow> True | Some s \<Rightarrow> s = [])"

definition startsWith :: "string \<Rightarrow> string \<Rightarrow> bool" where
  "startsWith s p = (take (length p) s = p)"

definition searchParams_get :: "Request \<Rightarrow> string \<Rightarrow> string option" where
  "searchParams_get request name = map_of (searchParams request) name"

subsection \<open>The Stats Store (lines 131-154)\<close>

definition getCacheStats :: "Env \<Rightarrow> CacheStats io" where
  "getCacheStats env =
     await (CACHE_STATS_get env) (\<lambda>stats.
       case stats of
         None \<Rightarrow> return \<lparr>hits = 0, misses = 0, lastReset = now env\<rparr>
       | Some s \<Rightarrow> return s)"

definition incrementCacheHit :: "Env \<Rightarrow> unit io" where
  "incrementCacheHit env =
     await (getCacheStats env) (\<lambda>stats.
       CACHE_STATS_put env (stats\<lparr>hits := hits stats + 1\<rparr>))"

definition incrementCacheMiss :: "Env \<Rightarrow> unit io" where
  "incrementCacheMiss env =
     await (getCacheStats env) (\<lambda>stats.
       CACHE_STATS_put env (stats\<lparr>misses := misses stats + 1\<rparr>))"

definition resetCacheStats :: "Env \<Rightarrow> unit io" where
  "resetCacheStats env =
     CACHE_STATS_put env \<lparr>hits = 0, misses = 0, lastReset = now env\<rparr>"

subsection \<open>The handler (lines 157-271)\<close>

definition json_response :: "json \<Rightarrow> Response" where
  "json_response v =
     \<lparr>body = Json v, status = 200, headers = [(''Content-Type'', ''application/json'')]\<rparr>"

definition text_response :: "string \<Rightarrow> nat \<Rightarrow> Response" where
  "text_response s code = \<lparr>body = Text s, status = code, headers = []\<rparr>"

text \<open>Lines 161-174.\<close>

definition cache_stats_view :: "Env \<Rightarrow> Response io" where
  "cache_stats_view env =
     await (getCacheStats env) (\<lambda>stats.
       let total = hits stats + misses stats;
           hitRate =
             (if total > 0 then toFixed2 (js_times (js_divide (of_nat (hits stats)) (of_nat total)) 100)
              else ''0.00'')
       in return (json_response (JObject
            [(''hits'', JNumber (hits stats)),
             (''misses'', JNumber (misses stats)),
             (''lastReset'', JString (lastReset stats)),
             (''total'', JNumber total),
             (''hitRate'', JString (hitRate @ ''%'')),
             (''efficiency'', JString
                (if total > 0
                 then string_of_nat (hits stats) @ ''/'' @ string_of_nat total
                      @ '' requests served from cache''
                 else ''No requests yet''))])))"

text \<open>Lines 177-182.\<close>

definition cache_stats_reset :: "Env \<Rightarrow> Response io" where
  "cache_stats_reset env =
     await (resetCacheStats env) (\<lambda>_.
       return (json_response (JObject [(''message'', JString ''Cache statistics reset'')])))"

text \<open>Lines 185-199.\<close>

text \<open>Lines 188-198: what the endpoint answers once it has the keys.\<close>

definition entries_listing :: "Request list \<Rightarrow> Response" where
  "entries_listing keys =
     (let entries =
            map (\<lambda>req. JObject [(''url'', JString (url req)), (''method'', JString (http_method req))])
              keys
      in json_response (JObject
           [(''count'', JNumber (length entries)),
            (''entries'', JArray (take 50 entries))]))"

definition cache_entries :: "Env \<Rightarrow> Response io" where
  "cache_entries env = await (cache_keys env) (\<lambda>keys. return (entries_listing keys))"

text \<open>Line 230.\<close>

definition theme_of :: "Request \<Rightarrow> string" where
  "theme_of request =
     (if searchParams_get request ''theme'' = Some ''dark'' then ''dark'' else ''default'')"

text \<open>Lines 259-264.\<close>

definition svg_response :: "string \<Rightarrow> Response" where
  "svg_response svg =
     \<lparr>body = Text svg, status = 200,
      headers = [(''Content-Type'', ''image/svg+xml''),
                 (''Cache-Control'', ''public, max-age=31536000'')]\<rparr>"

text \<open>Lines 230-270: the cache missed and the miss is recorded.\<close>

definition render_and_store :: "Env \<Rightarrow> Request \<Rightarrow> string \<Rightarrow> Response io" where
  "render_and_store env request mermaidString =
     (let theme = theme_of request
      in await (try_block (browser_render env mermaidString theme)) (\<lambda>outcome.
           case outcome of
             Inl err \<Rightarrow>
               await (console_error err) (\<lambda>_. return (text_response ''Internal error'' 500))
           | Inr svg \<Rightarrow>
               if falsy svg \<or> \<not> startsWith (the svg) ''<svg''
               then return (text_response ''Failed to render SVG'' 500)
               else
                 let response = svg_response (the svg)
                 in await (ctx_waitUntil_cache_put request response) (\<lambda>_.
                    await (console_log (''Cached response for URL: '' @ url request)) (\<lambda>_.
                    return response))))"

text \<open>Lines 205-213: the payload of the request, or the response that ends it.\<close>

definition decode :: "Env \<Rightarrow> Request \<Rightarrow> Response + string" where
  "decode env request =
     (let compressed = searchParams_get request ''mermaid''
      in if falsy compressed then Inl (text_response ''Missing mermaid parameter'' 400)
         else
           let mermaidString = decompressFromEncodedURIComponent env (the compressed)
           in if falsy mermaidString
              then Inl (text_response ''Failed to decompress mermaid parameter'' 400)
              else Inr (the mermaidString))"

text \<open>Lines 205-270, the path \<^verbatim>\<open>/svg\<close>.\<close>

definition render_pipeline :: "Env \<Rightarrow> Request \<Rightarrow> Response io" where
  "render_pipeline env request =
     (case decode env request of
        Inl response \<Rightarrow> return response
      | Inr mermaidString \<Rightarrow>
          await (cache_match env (url request)) (\<lambda>response.
            case response of
              Some cached \<Rightarrow>
                await (incrementCacheHit env) (\<lambda>_.
                await (console_log (''Cache HIT for URL: '' @ url request)) (\<lambda>_.
                return cached))
            | None \<Rightarrow>
                await (incrementCacheMiss env) (\<lambda>_.
                await (console_log (''Cache MISS for URL: '' @ url request)) (\<lambda>_.
                await (console_log (''Mermaid diagram: '' @ take 100 mermaidString
                         @ (if length mermaidString > 100 then ''...'' else ''''))) (\<lambda>_.
                render_and_store env request mermaidString)))))"

definition fetch :: "Env \<Rightarrow> Request \<Rightarrow> Response io" where
  "fetch env request =
     (if pathname request = ''/cache-stats'' then cache_stats_view env
      else if pathname request = ''/cache-stats/reset'' then cache_stats_reset env
      else if pathname request = ''/cache-entries'' then cache_entries env
      else if pathname request \<noteq> ''/svg'' then return (text_response ''Not found'' 404)
      else render_pipeline env request)"

text \<open>
  One request from arrival to the end of its background work: the handler returns its
  response, then the runtime runs what was handed to \<^verbatim>\<open>ctx.waitUntil\<close>.
\<close>

definition serve :: "Env \<Rightarrow> Request \<Rightarrow> World \<Rightarrow> (exn + Response) \<times> World \<times> event list" where
  "serve env request w =
     (case fetch env request w of (r, w1, t) \<Rightarrow> (r, settle env t w1, t))"

subsection \<open>Observations\<close>

text \<open>
  What \<^verbatim>\<open>getCacheStats\<close> reads when the KV call succeeds: the record stored, or the
  zeroed record of a namespace never written.
\<close>

definition stats_of :: "Env \<Rightarrow> World \<Rightarrow> CacheStats" where
  "stats_of env w =
     (case kv_stats w of
        None \<Rightarrow> \<lparr>hits = 0, misses = 0, lastReset = now env\<rparr>
      | Some s \<Rightarrow> s)"

definition counted :: "World \<Rightarrow> nat" where
  "counted w = (case kv_stats w of None \<Rightarrow> 0 | Some s \<Rightarrow> hits s + misses s)"

text \<open>The two counters as a read shows them (zero for a namespace never written).\<close>

definition hits_misses :: "World \<Rightarrow> nat \<times> nat" where
  "hits_misses w = (case kv_stats w of None \<Rightarrow> (0, 0) | Some s \<Rightarrow> (hits s, misses s))"

fun is_lookup :: "event \<Rightarrow> bool" where
  "is_lookup (Cache_match u) = True"
| "is_lookup e = False"

fun is_cache_write :: "event \<Rightarrow> bool" where
  "is_cache_write (Wait_until_cache_put request response) = True"
| "is_cache_write e = False"

text \<open>
  A sequential execution: the requests are served one after the other, each to the end
  of its background work. It leaves the world and, per request, the calls made.
\<close>

fun run :: "(Env \<times> Request) list \<Rightarrow> World \<Rightarrow> World \<times> (Request \<times> event list) list" where
  "run [] w = (w, [])"
| "run ((env, request) # rest) w =
     (case serve env request w of
        (r, w1, t) \<Rightarrow> (case run rest w1 of (w2, ts) \<Rightarrow> (w2, (request, t) # ts)))"

text \<open>
  The cache lookups of an execution since its last reset, on top of \<open>n\<close> lookups before
  it. The reset is the request to \<^verbatim>\<open>/cache-stats/reset\<close>.
\<close>

fun lookups_since_reset :: "nat \<Rightarrow> (Request \<times> event list) list \<Rightarrow> nat" where
  "lookups_since_reset n [] = n"
| "lookups_since_reset n ((request, t) # ts) =
     lookups_since_reset
       (if pathname request = ''/cache-stats/reset'' then 0 else n + length (filter is_lookup t))
       ts"

text \<open>The Stats Store and the cache lookup answer during one invocation.\<close>

definition stores_answer :: "Env \<Rightarrow> bool" where
  "stores_answer env =
     (\<not> kv_get_rejects env \<and> \<not> kv_put_rejects env \<and> \<not> cache_match_rejects env)"

text \<open>The two lines logged on a miss (lines 227-228).\<close>

definition miss_log :: "Request \<Rightarrow> string \<Rightarrow> event list" where
  "miss_log request s =
     [Console_log (''Cache MISS for URL: '' @ url request),
      Console_log (''Mermaid diagram: '' @ take 100 s @ (if length s > 100 then ''...'' else ''''))]"

subsection \<open>Example inputs\<close>

text \<open>
  Stand-ins for the collaborators in the examples: a decompressor that maps \<open>Q\<close> (the
  encoding of the empty string) to the empty string, rejects \<open>!\<close> and prefixes
  anything else, and a browser that wraps the diagram source in an \<open>svg\<close> element.
\<close>

definition ex_decompress :: "string \<Rightarrow> string option" where
  "ex_decompress c = (if c = ''Q'' then Some '''' else if c = ''!'' then None else Some (''graph TD; '' @ c))"

definition ex_browser :: "string \<Rightarrow> string \<Rightarrow> exn + string option" where
  "ex_browser mermaidString theme = Inr (Some (''<svg class='' @ theme @ ''>'' @ mermaidString @ ''</svg>''))"

definition ex_env :: Env where
  "ex_env = \<lparr>BROWSER = ex_browser, decompressFromEncodedURIComponent = ex_decompress,
     now = ''2024-01-15T10:30:00.000Z'', kv_get_rejects = False, kv_put_rejects = False,
     cache_match_rejects = False, cache_put_rejects = False\<rparr>"

definition ex_request :: Request where
  "ex_request = \<lparr>url = ''https://w.dev/svg?mermaid=A-B'', http_method = ''GET'', pathname = ''/svg'',
     searchParams = [(''mermaid'', ''A-B'')]\<rparr>"

definition ex_svg :: Response where
  "ex_svg = \<lparr>body = Text ''<svg>old</svg>'', status = 200,
     headers = [(''Content-Type'', ''image/svg+xml''), (''Cache-Control'', ''public, max-age=31536000'')]\<rparr>"

definition ex_world :: World where
  "ex_world = \<lparr>kv_stats = Some \<lparr>hits = 45, misses = 12, lastReset = ''2024-01-01T00:00:00.000Z''\<rparr>, cache = []\<rparr>"

definition ex_world_cached :: World where
  "ex_world_cached = ex_world\<lparr>cache := [(ex_request, ex_svg)]\<rparr>"

definition ex_env_browser_down :: Env where
  "ex_env_browser_down = ex_env\<lparr>BROWSER := \<lambda>mermaidString theme. Inl (BrowserError ''Navigation timeout'')\<rparr>"

definition ex_request_empty :: Request where
  "ex_request_empty = \<lparr>url = ''https://w.dev/svg?mermaid=Q'', http_method = ''GET'', pathname = ''/svg'',
     searchParams = [(''mermaid'', ''Q'')]\<rparr>"



definition ex_request_entries :: Request where
  "ex_request_entries = \<lparr>url = ''https://w.dev/cache-entries'', http_method = ''GET'', pathname = ''/cache-entries'',
     searchParams = []\<rparr>"

definition ex_key :: "nat \<Rightarrow> Request" where
  "ex_key i = \<lparr>url = ''https://w.dev/svg?mermaid='' @ string_of_nat i, http_method = ''GET'', pathname = ''/svg'',
     searchParams = [(''mermaid'', string_of_nat i)]\<rparr>"

definition ex_world_73 :: World where
  "ex_world_73 = \<lparr>kv_stats = None, cache = map (\<lambda>i. (ex_key i, ex_svg)) [0..<73]\<rparr>"

definition ex_world_empty :: World where
  "ex_world_empty = \<lparr>kv_stats = None, cache = []\<rparr>"

definition ex_rendered :: Response where
  "ex_rendered = \<lparr>body = Text ''<svg class=default>graph TD; A-B</svg>'', status = 200,
     headers = [(''Content-Type'', ''image/svg+xml''), (''Cache-Control'', ''public, max-age=31536000'')]\<rparr>"

definition ex_trace_rendered :: "event list" where
  "ex_trace_rendered =
     [Cache_match ''https://w.dev/svg?mermaid=A-B'', KV_get,
      KV_put \<lparr>hits = 45, misses = 13, lastReset = ''2024-01-01T00:00:00.000Z''\<rparr>,
      Console_log ''Cache MISS for URL: https://w.dev/svg?mermaid=A-B'',
      Console_log ''Mermaid diagram: graph TD; A-B'',
      Browser_render ''graph TD; A-B'' ''default'',
      Wait_until_cache_put ex_request ex_rendered,
      Console_log ''Cached response for URL: https://w.dev/svg?mermaid=A-B'']"

definition ex_request_reset :: Request where
  "ex_request_reset = \<lparr>url = ''https://w.dev/cache-stats/reset'', http_method = ''GET'',
     pathname = ''/cache-stats/reset'', searchParams = []\<rparr>"

definition ex_steps :: "(Env \<times> Request) list" where
  "ex_steps = [(ex_env, ex_request), (ex_env, ex_request), (ex_env, ex_request_reset), (ex_env, ex_request)]"

definition ex_request_stats :: Request where
  "ex_request_stats = \<lparr>url = ''https://w.dev/cache-stats'', http_method = ''GET'',
     pathname = ''/cache-stats'', searchParams = []\<rparr>"

section \<open>Properties\<close>

lemmas io_defs = return_def await_def try_block_def console_log_def console_error_def
  CACHE_STATS_get_def CACHE_STATS_put_def cache_match_def cache_keys_def browser_render_def
  ctx_waitUntil_cache_put_def

lemmas eval_defs = fetch_def render_pipeline_def decode_def render_and_store_def io_defs
  incrementCacheHit_def incrementCacheMiss_def getCacheStats_def resetCacheStats_def
  searchParams_get_def falsy_def startsWith_def theme_of_def svg_response_def text_response_def Let_def

lemmas ex_defs = ex_decompress_def ex_browser_def ex_env_def ex_request_def ex_svg_def
  ex_world_def ex_world_cached_def

subsection \<open>The operations in closed form\<close>

lemma getCacheStats_eq:
  "getCacheStats env w =
     (if kv_get_rejects env then (Inl KVGetRejected, w, [KV_get])
      else (Inr (stats_of env w), w, [KV_get]))"
  by (simp add: getCacheStats_def io_defs stats_of_def split: option.splits)

lemma incrementCacheHit_eq:
  "incrementCacheHit env w =
     (if kv_get_rejects env then (Inl KVGetRejected, w, [KV_get])
      else if kv_put_rejects env
      then (Inl KVPutRejected, w, [KV_get, KV_put ((stats_of env w)\<lparr>hits := hits (stats_of env w) + 1\<rparr>)])
      else (Inr (), w\<lparr>kv_stats := Some ((stats_of env w)\<lparr>hits := hits (stats_of env w) + 1\<rparr>)\<rparr>,
            [KV_get, KV_put ((stats_of env w)\<lparr>hits := hits (stats_of env w) + 1\<rparr>)]))"
  by (simp add: incrementCacheHit_def await_def getCacheStats_eq CACHE_STATS_put_def)

lemma incrementCacheMiss_eq:
  "incrementCacheMiss env w =
     (if kv_get_rejects env then (Inl KVGetRejected, w, [KV_get])
      else if kv_put_rejects env
      then (Inl KVPutRejected, w, [KV_get, KV_put ((stats_of env w)\<lparr>misses := misses (stats_of env w) + 1\<rparr>)])
      else (Inr (), w\<lparr>kv_stats := Some ((stats_of env w)\<lparr>misses := misses (stats_of env w) + 1\<rparr>)\<rparr>,
            [KV_get, KV_put ((stats_of env w)\<lparr>misses := misses (stats_of env w) + 1\<rparr>)]))"
  by (simp add: incrementCacheMiss_def await_def getCacheStats_eq CACHE_STATS_put_def)

lemma render_and_store_throws:
  "BROWSER env s (theme_of request) = Inl err \<Longrightarrow>
   render_and_store env request s w =
     (Inr (text_response ''Internal error'' 500), w, [Browser_render s (theme_of request), Console_error err])"
  by (simp add: render_and_store_def io_defs theme_of_def Let_def)

lemma render_and_store_malformed:
  "BROWSER env s (theme_of request) = Inr v \<Longrightarrow> falsy v \<or> \<not> startsWith (the v) ''<svg'' \<Longrightarrow>
   render_and_store env request s w =
     (Inr (text_response ''Failed to render SVG'' 500), w, [Browser_render s (theme_of request)])"
  by (auto simp add: render_and_store_def io_defs theme_of_def Let_def)

lemma render_and_store_ok:
  "BROWSER env s (theme_of request) = Inr (Some v) \<Longrightarrow> startsWith v ''<svg'' \<Longrightarrow>
   render_and_store env request s w =
     (Inr (svg_response v), w,
      [Browser_render s (theme_of request), Wait_until_cache_put request (svg_response v),
       Console_log (''Cached response for URL: '' @ url request)])"
  by (auto simp add: render_and_store_def io_defs theme_of_def Let_def falsy_def startsWith_def svg_response_def)

lemma render_pipeline_eq:
  "render_pipeline env request w =
     (case decode env request of
        Inl response \<Rightarrow> (Inr response, w, [])
      | Inr s \<Rightarrow>
          if cache_match_rejects env then (Inl CacheMatchRejected, w, [Cache_match (url request)])
          else (case lookup_url (url request) (cache w) of
              Some cached \<Rightarrow>
                (case incrementCacheHit env w of
                   (Inl e, w1, t1) \<Rightarrow> (Inl e, w1, Cache_match (url request) # t1)
                 | (Inr u, w1, t1) \<Rightarrow>
                     (Inr cached, w1,
                      Cache_match (url request) # t1 @ [Console_log (''Cache HIT for URL: '' @ url request)]))
            | None \<Rightarrow>
                (case incrementCacheMiss env w of
                   (Inl e, w1, t1) \<Rightarrow> (Inl e, w1, Cache_match (url request) # t1)
                 | (Inr u, w1, t1) \<Rightarrow>
                     (case render_and_store env request s w1 of
                        (r, w2, t2) \<Rightarrow> (r, w2, Cache_match (url request) # t1 @ miss_log request s @ t2)))))"
  by (simp add: render_pipeline_def await_def return_def cache_match_def console_log_def miss_log_def
      split: sum.splits option.splits prod.splits)


lemma fetch_svg: "pathname request = ''/svg'' \<Longrightarrow> fetch env request = render_pipeline env request"
  by (simp add: fetch_def)

lemma cache_stats_view_trace:
  "cache_stats_view env w = (r, w1, t) \<Longrightarrow> w1 = w \<and> t = [KV_get]"
  by (auto simp: cache_stats_view_def await_def getCacheStats_eq return_def Let_def split: if_splits)

lemma cache_stats_reset_trace:
  "cache_stats_reset env w = (r, w1, t) \<Longrightarrow> t = [KV_put \<lparr>hits = 0, misses = 0, lastReset = now env\<rparr>]"
  by (auto simp: cache_stats_reset_def resetCacheStats_def await_def CACHE_STATS_put_def return_def split: if_splits)

lemma cache_entries_trace:
  "cache_entries env w = (r, w1, t) \<Longrightarrow> w1 = w \<and> t = [Cache_keys]"
  by (auto simp: cache_entries_def await_def cache_keys_def)

lemma render_and_store_world:
  "render_and_store env request s w = (r, w1, t) \<Longrightarrow> w1 = w"
  by (auto simp: render_and_store_def io_defs Let_def split: if_splits sum.splits)

text \<open>The renderer is reached on one path only.\<close>

lemma render_and_store_trace:
  assumes "render_and_store env request s' w = (r, w1, t)" and "Browser_render s th \<in> set t"
  shows "s = s' \<and> th = theme_of request"
  using assms
  by (auto simp: render_and_store_def io_defs Let_def split: if_splits sum.splits)

lemma render_pipeline_reaches:
  assumes "render_pipeline env request w = (r, w1, t)" and "Browser_render s th \<in> set t"
  shows "decode env request = Inr s \<and> th = theme_of request
       \<and> stores_answer env \<and> lookup_url (url request) (cache w) = None"
proof (cases "decode env request")
  case (Inl resp)
  with assms show ?thesis by (simp add: render_pipeline_eq)
next
  case (Inr s')
  show ?thesis
  proof (cases "cache_match_rejects env")
    case True
    with Inr assms show ?thesis by (auto simp: render_pipeline_eq)
  next
    case no_match: False
    show ?thesis
    proof (cases "lookup_url (url request) (cache w)")
      case (Some cached)
      with Inr no_match assms show ?thesis
        by (auto simp: render_pipeline_eq incrementCacheHit_eq split: if_splits)
    next
      case None
      show ?thesis
      proof (cases "kv_get_rejects env \<or> kv_put_rejects env")
        case True
        with Inr no_match None assms show ?thesis
          by (auto simp: render_pipeline_eq incrementCacheMiss_eq split: if_splits)
      next
        case False
        obtain r2 w2 t2 where rs: "render_and_store env request s'
            (w\<lparr>kv_stats := Some ((stats_of env w)\<lparr>misses := misses (stats_of env w) + 1\<rparr>)\<rparr>) = (r2, w2, t2)"
          by (cases "render_and_store env request s'
            (w\<lparr>kv_stats := Some ((stats_of env w)\<lparr>misses := misses (stats_of env w) + 1\<rparr>)\<rparr>)") auto
        with Inr no_match None False assms have "Browser_render s th \<in> set t2"
          by (auto simp: render_pipeline_eq incrementCacheMiss_eq miss_log_def)
        with rs have "s = s' \<and> th = theme_of request" by (rule render_and_store_trace)
        with Inr no_match None False show ?thesis by (simp add: stores_answer_def)
      qed
    qed
  qed
qed

lemma reaches_renderer:
  assumes "fetch env request w = (r, w1, t)" and "Browser_render s th \<in> set t"
  shows "pathname request = ''/svg'' \<and> decode env request = Inr s \<and> th = theme_of request
       \<and> stores_answer env \<and> lookup_url (url request) (cache w) = None"
proof -
  have "pathname request = ''/svg''"
  proof (rule ccontr)
    assume "pathname request \<noteq> ''/svg''"
    with assms show False
      by (auto simp: fetch_def return_def split: if_splits
          dest: cache_stats_view_trace cache_stats_reset_trace cache_entries_trace)
  qed
  with assms show ?thesis by (simp add: fetch_svg render_pipeline_reaches)
qed

lemma miss_path:
  assumes "pathname request = ''/svg''" and "decode env request = Inr s"
    and "stores_answer env" and "lookup_url (url request) (cache w) = None"
  shows "fetch env request w =
     (case render_and_store env request s (w\<lparr>kv_stats := Some ((stats_of env w)\<lparr>misses := misses (stats_of env w) + 1\<rparr>)\<rparr>) of
        (r, w2, t2) \<Rightarrow>
          (r, w2, [Cache_match (url request), KV_get, KV_put ((stats_of env w)\<lparr>misses := misses (stats_of env w) + 1\<rparr>)]
                  @ miss_log request s @ t2))"
  using assms by (simp add: fetch_svg render_pipeline_eq incrementCacheMiss_eq stores_answer_def)

lemma settle_no_write: "filter is_cache_write t = [] \<Longrightarrow> settle env t w = w"
proof (induction t)
  case Nil
  show ?case by simp
next
  case (Cons e t)
  then show ?case by (cases e) (simp_all split: if_splits)
qed

lemma lookup_url_put:
  "lookup_url (url request) (filter (\<lambda>(k, r). url k \<noteq> url request) es @ [(request, response)]) = Some response"
  by (induction es) auto

lemma hit_path:
  assumes "pathname request = ''/svg''" and "decode env request = Inr s"
    and "stores_answer env" and "lookup_url (url request) (cache w) = Some cached"
  shows "fetch env request w =
     (Inr cached,
      w\<lparr>kv_stats := Some ((stats_of env w)\<lparr>hits := hits (stats_of env w) + 1\<rparr>)\<rparr>,
      [Cache_match (url request), KV_get,
       KV_put ((stats_of env w)\<lparr>hits := hits (stats_of env w) + 1\<rparr>),
       Console_log (''Cache HIT for URL: '' @ url request)])"
  using assms by (simp add: fetch_svg render_pipeline_eq incrementCacheHit_eq stores_answer_def)

subsection \<open>Render failures\<close>

text \<open>
  Claim C2. A request that reaches the renderer, whose renderer throws or does not
  return a string beginning with \<^verbatim>\<open><svg\<close>, is answered with status 500; the handler
  hands no store to the runtime, so the cache is as before and still has no entry for
  the URL; the miss counter is the one read plus one, and the write of that counter
  comes before the renderer is called.
\<close>

theorem C2_render_failure:
  assumes "fetch env request w = (r, w1, t)"
    and "Browser_render mermaidString theme \<in> set t"
    and "\<not> (\<exists>v. BROWSER env mermaidString theme = Inr (Some v) \<and> startsWith v ''<svg'')"
  shows "(\<exists>resp. r = Inr resp \<and> status resp = 500)
       \<and> filter is_cache_write t = []
       \<and> cache (settle env t w1) = cache w
       \<and> lookup_url (url request) (cache (settle env t w1)) = None
       \<and> kv_stats w1 = Some ((stats_of env w)\<lparr>misses := misses (stats_of env w) + 1\<rparr>)
       \<and> (\<exists>t1 t2. t = t1 @ Browser_render mermaidString theme # t2
             \<and> KV_put ((stats_of env w)\<lparr>misses := misses (stats_of env w) + 1\<rparr>) \<in> set t1)"
proof -
  let ?w = "w\<lparr>kv_stats := Some ((stats_of env w)\<lparr>misses := misses (stats_of env w) + 1\<rparr>)\<rparr>"
  let ?pre = "[Cache_match (url request), KV_get, KV_put ((stats_of env w)\<lparr>misses := misses (stats_of env w) + 1\<rparr>)]
                  @ miss_log request mermaidString"
  from assms(1,2) have path: "pathname request = ''/svg''" "decode env request = Inr mermaidString"
    "theme = theme_of request" "stores_answer env" "lookup_url (url request) (cache w) = None"
    using reaches_renderer by blast+
  have "\<exists>resp t2. status resp = 500 \<and> filter is_cache_write t2 = [] \<and>
     render_and_store env request mermaidString ?w = (Inr resp, ?w, Browser_render mermaidString theme # t2)"
  proof (cases "BROWSER env mermaidString theme")
    case (Inl err)
    then show ?thesis using path(3) by (simp add: render_and_store_throws text_response_def)
  next
    case (Inr v)
    with assms(3) have "falsy v \<or> \<not> startsWith (the v) ''<svg''"
      by (cases v) (auto simp: falsy_def)
    with Inr show ?thesis using path(3) by (simp add: render_and_store_malformed text_response_def)
  qed
  then obtain resp t2 where rs: "status resp = 500" "filter is_cache_write t2 = []"
     "render_and_store env request mermaidString ?w = (Inr resp, ?w, Browser_render mermaidString theme # t2)"
    by blast
  from miss_path[OF path(1,2,4,5)] rs(3) assms(1)
  have res: "r = Inr resp" "w1 = ?w" "t = ?pre @ Browser_render mermaidString theme # t2" by simp_all
  have nw: "filter is_cache_write t = []" using res(3) rs(2) by (simp add: miss_log_def)
  have st: "settle env t w1 = w1" using nw by (rule settle_no_write)
  have ord: "\<exists>t1 t2. t = t1 @ Browser_render mermaidString theme # t2
             \<and> KV_put ((stats_of env w)\<lparr>misses := misses (stats_of env w) + 1\<rparr>) \<in> set t1"
    using res(3) by (intro exI[of _ ?pre] exI[of _ t2]) simp
  show ?thesis using res(1,2) rs(1) nw st path(5) ord by simp
qed

theorem C2_render_failure_witness:
  "fetch ex_env_browser_down ex_request ex_world =
    (Inr (text_response ''Internal error'' 500),
     ex_world\<lparr>kv_stats := Some \<lparr>hits = 45, misses = 13, lastReset = ''2024-01-01T00:00:00.000Z''\<rparr>\<rparr>,
     [Cache_match ''https://w.dev/svg?mermaid=A-B'', KV_get,
      KV_put \<lparr>hits = 45, misses = 13, lastReset = ''2024-01-01T00:00:00.000Z''\<rparr>,
      Console_log ''Cache MISS for URL: https://w.dev/svg?mermaid=A-B'',
      Console_log ''Mermaid diagram: graph TD; A-B'',
      Browser_render ''graph TD; A-B'' ''default'',
      Console_error (BrowserError ''Navigation timeout'')])
   \<and> BROWSER ex_env_browser_down ''graph TD; A-B'' ''default'' = Inl (BrowserError ''Navigation timeout'')
   \<and> status (text_response ''Internal error'' 500) = 500
   \<and> misses (stats_of ex_env_browser_down ex_world) = 12
   \<and> kv_stats (fst (snd (fetch ex_env_browser_down ex_request ex_world)))
        = Some ((stats_of ex_env_browser_down ex_world)\<lparr>misses := 13\<rparr>)
   \<and> cache (fst (snd (serve ex_env_browser_down ex_request ex_world))) = []"
proof -
  have run: "fetch ex_env_browser_down ex_request ex_world =
    (Inr (text_response ''Internal error'' 500),
     ex_world\<lparr>kv_stats := Some \<lparr>hits = 45, misses = 13, lastReset = ''2024-01-01T00:00:00.000Z''\<rparr>\<rparr>,
     [Cache_match ''https://w.dev/svg?mermaid=A-B'', KV_get,
      KV_put \<lparr>hits = 45, misses = 13, lastReset = ''2024-01-01T00:00:00.000Z''\<rparr>,
      Console_log ''Cache MISS for URL: https://w.dev/svg?mermaid=A-B'',
      Console_log ''Mermaid diagram: graph TD; A-B'',
      Browser_render ''graph TD; A-B'' ''default'',
      Console_error (BrowserError ''Navigation timeout'')])"
    by (simp add: ex_defs ex_env_browser_down_def eval_defs)
  have reach: "Browser_render ''graph TD; A-B'' ''default'' \<in> set
     [Cache_match ''https://w.dev/svg?mermaid=A-B'', KV_get,
      KV_put \<lparr>hits = 45, misses = 13, lastReset = ''2024-01-01T00:00:00.000Z''\<rparr>,
      Console_log ''Cache MISS for URL: https://w.dev/svg?mermaid=A-B'',
      Console_log ''Mermaid diagram: graph TD; A-B'',
      Browser_render ''graph TD; A-B'' ''default'',
      Console_error (BrowserError ''Navigation timeout'')]"
    by simp
  have bad: "\<not> (\<exists>v. BROWSER ex_env_browser_down ''graph TD; A-B'' ''default'' = Inr (Some v) \<and> startsWith v ''<svg'')"
    by (simp add: ex_defs ex_env_browser_down_def)
  have st: "stats_of ex_env_browser_down ex_world = \<lparr>hits = 45, misses = 12, lastReset = ''2024-01-01T00:00:00.000Z''\<rparr>"
    by (simp add: stats_of_def ex_defs ex_env_browser_down_def)
  from C2_render_failure [OF run reach bad] show ?thesis
    using run st by (simp add: serve_def text_response_def ex_defs ex_env_browser_down_def)
qed

subsection \<open>Render success\<close>

text \<open>
  Claim C5. A request that reaches the renderer, whose renderer returns a string
  beginning with \<^verbatim>\<open><svg\<close>, is answered with that string as body, status 200,
  \<^verbatim>\<open>Content-Type: image/svg+xml\<close> and
  \<^verbatim>\<open>Cache-Control: public, max-age=31536000\<close>. The handler hands exactly one store to
  the runtime, of this response under the request; when the handler returns, the cache is
  still as it was; the background work is that one store, and once it has run without
  rejecting, a lookup of the request URL finds the response.
\<close>

theorem C5_render_success:
  assumes "fetch env request w = (r, w1, t)"
    and "Browser_render mermaidString theme \<in> set t"
    and "BROWSER env mermaidString theme = Inr (Some v)" and "startsWith v ''<svg''"
  shows "r = Inr \<lparr>body = Text v, status = 200,
                  headers = [(''Content-Type'', ''image/svg+xml''),
                             (''Cache-Control'', ''public, max-age=31536000'')]\<rparr>
       \<and> filter is_cache_write t = [Wait_until_cache_put request (svg_response v)]
       \<and> cache w1 = cache w
       \<and> settle env t w1 = cache_put env request (svg_response v) w1
       \<and> lookup_url (url request) (cache (settle (env\<lparr>cache_put_rejects := False\<rparr>) t w1)) = Some (svg_response v)"
proof -
  let ?w = "w\<lparr>kv_stats := Some ((stats_of env w)\<lparr>misses := misses (stats_of env w) + 1\<rparr>)\<rparr>"
  from assms(1,2) have path: "pathname request = ''/svg''" "decode env request = Inr mermaidString"
    "theme = theme_of request" "stores_answer env" "lookup_url (url request) (cache w) = None"
    using reaches_renderer by blast+
  from assms(3,4) path(3)
  have rs: "render_and_store env request mermaidString ?w =
     (Inr (svg_response v), ?w,
      [Browser_render mermaidString (theme_of request), Wait_until_cache_put request (svg_response v),
       Console_log (''Cached response for URL: '' @ url request)])"
    by (simp add: render_and_store_ok)
  from miss_path[OF path(1,2,4,5)] rs assms(1)
  have res: "r = Inr (svg_response v)" "w1 = ?w"
    "t = [Cache_match (url request), KV_get, KV_put ((stats_of env w)\<lparr>misses := misses (stats_of env w) + 1\<rparr>)]
         @ miss_log request mermaidString
         @ [Browser_render mermaidString (theme_of request), Wait_until_cache_put request (svg_response v),
            Console_log (''Cached response for URL: '' @ url request)]"
    by simp_all
  have st: "settle e t w1 = cache_put e request (svg_response v) w1" for e
    unfolding res(3) by (simp add: miss_log_def)
  have lk: "lookup_url (url request) (cache (cache_put (env\<lparr>cache_put_rejects := False\<rparr>) request (svg_response v) w1)) = Some (svg_response v)"
    by (simp add: cache_put_def lookup_url_put)
  show ?thesis
    using res(1,2) st lk unfolding res(3) by (simp add: svg_response_def miss_log_def)
qed

theorem C5_render_success_witness:
  "fetch ex_env ex_request ex_world =
     (Inr ex_rendered,
      ex_world\<lparr>kv_stats := Some \<lparr>hits = 45, misses = 13, lastReset = ''2024-01-01T00:00:00.000Z''\<rparr>\<rparr>,
      ex_trace_rendered)
   \<and> BROWSER ex_env ''graph TD; A-B'' ''default'' = Inr (Some ''<svg class=default>graph TD; A-B</svg>'')
   \<and> filter is_cache_write ex_trace_rendered = [Wait_until_cache_put ex_request ex_rendered]
   \<and> cache (fst (snd (fetch ex_env ex_request ex_world))) = []
   \<and> cache (fst (snd (serve ex_env ex_request ex_world))) = [(ex_request, ex_rendered)]"
proof -
  let ?w1 = "ex_world\<lparr>kv_stats := Some \<lparr>hits = 45, misses = 13, lastReset = ''2024-01-01T00:00:00.000Z''\<rparr>\<rparr>"
  have run: "fetch ex_env ex_request ex_world = (Inr ex_rendered, ?w1, ex_trace_rendered)"
    by (simp add: ex_defs eval_defs ex_rendered_def ex_trace_rendered_def)
  have reach: "Browser_render ''graph TD; A-B'' ''default'' \<in> set ex_trace_rendered"
    by (simp add: ex_trace_rendered_def)
  have ok: "BROWSER ex_env ''graph TD; A-B'' ''default'' = Inr (Some ''<svg class=default>graph TD; A-B</svg>'')"
    by (simp add: ex_defs)
  have sw: "startsWith ''<svg class=default>graph TD; A-B</svg>'' ''<svg''"
    by (simp add: startsWith_def)
  have sr: "svg_response ''<svg class=default>graph TD; A-B</svg>'' = ex_rendered"
    by (simp add: svg_response_def ex_rendered_def)
  have nr: "\<not> cache_put_rejects ex_env" by (simp add: ex_env_def)
  from C5_render_success [OF run reach ok sw] show ?thesis
    using run ok sr nr by (simp add: serve_def cache_put_def ex_world_def)
qed


subsection \<open>Decode errors\<close>




text \<open>
  Claim C10. A request to \<^verbatim>\<open>/svg\<close> whose \<^verbatim>\<open>mermaid\<close> parameter is a non-empty
  string that decompresses to the empty string is answered with status 400 and the body
  \<^verbatim>\<open>Failed to decompress mermaid parameter\<close>, with no call made; and the decoding of
  a request never yields the empty diagram source, for any decompressor and any request.
\<close>

theorem C10_empty_payload_rejected:
  assumes "pathname request = ''/svg''"
    and "searchParams_get request ''mermaid'' = Some c" and "c \<noteq> []"
    and "decompressFromEncodedURIComponent env c = Some []"
  shows "fetch env request w = (Inr (text_response ''Failed to decompress mermaid parameter'' 400), w, [])
       \<and> decode env request = Inl (text_response ''Failed to decompress mermaid parameter'' 400)
       \<and> decode env' request' \<noteq> Inr []"
  using assms
  by (auto simp: fetch_def render_pipeline_def decode_def falsy_def return_def Let_def split: option.splits)

theorem C10_empty_payload_rejected_witness:
  "pathname ex_request_empty = ''/svg''
   \<and> searchParams_get ex_request_empty ''mermaid'' = Some ''Q''
   \<and> decompressFromEncodedURIComponent ex_env ''Q'' = Some []
   \<and> fetch ex_env ex_request_empty ex_world
       = (Inr \<lparr>body = Text ''Failed to decompress mermaid parameter'', status = 400, headers = []\<rparr>, ex_world, [])"
proof -
  have p: "pathname ex_request_empty = ''/svg''" by (simp add: ex_request_empty_def)
  have m: "searchParams_get ex_request_empty ''mermaid'' = Some ''Q''"
    by (simp add: ex_request_empty_def searchParams_get_def)
  have n: "''Q'' \<noteq> []" by simp
  have d: "decompressFromEncodedURIComponent ex_env ''Q'' = Some []" by (simp add: ex_defs)
  from C10_empty_payload_rejected [OF p m n d, of ex_world] p m d show ?thesis by (simp add: text_response_def)
qed


subsection \<open>Cache hit\<close>

text \<open>
  Claim C4. At a cache hit the handler awaits \<^verbatim>\<open>incrementCacheHit\<close> before it
  returns, with no \<^verbatim>\<open>catch\<close> around it. While the Stats Store answers, the request is
  answered with the cached response as stored, \<open>hits\<close> is written one higher, the
  renderer is not called and nothing is handed to the runtime (\<open>hit_path\<close>). When the
  KV write or the KV read rejects, the recording is attempted but the handler rejects
  with the error of the store: the cached response is not returned. The example is the
  request whose URL is cached, served once with the store answering, once with the
  write rejecting and once with the read rejecting.
\<close>

theorem C4_cache_hit_recording_rejects:
  "lookup_url (url ex_request) (cache ex_world_cached) = Some ex_svg
   \<and> fetch ex_env ex_request ex_world_cached =
       (Inr ex_svg,
        ex_world_cached\<lparr>kv_stats := Some \<lparr>hits = 46, misses = 12, lastReset = ''2024-01-01T00:00:00.000Z''\<rparr>\<rparr>,
        [Cache_match ''https://w.dev/svg?mermaid=A-B'', KV_get,
         KV_put \<lparr>hits = 46, misses = 12, lastReset = ''2024-01-01T00:00:00.000Z''\<rparr>,
         Console_log ''Cache HIT for URL: https://w.dev/svg?mermaid=A-B''])
   \<and> fetch (ex_env\<lparr>kv_put_rejects := True\<rparr>) ex_request ex_world_cached =
       (Inl KVPutRejected, ex_world_cached,
        [Cache_match ''https://w.dev/svg?mermaid=A-B'', KV_get,
         KV_put \<lparr>hits = 46, misses = 12, lastReset = ''2024-01-01T00:00:00.000Z''\<rparr>])
   \<and> fetch (ex_env\<lparr>kv_get_rejects := True\<rparr>) ex_request ex_world_cached =
       (Inl KVGetRejected, ex_world_cached,
        [Cache_match ''https://w.dev/svg?mermaid=A-B'', KV_get])"
  by (simp add: ex_defs eval_defs)

subsection \<open>Reset\<close>

text \<open>
  Claim C8. From any world, a reset that the KV namespace accepts writes zeroed
  counters with the clock of the reset as \<open>lastReset\<close>; a read after it returns
  exactly this record, whatever the clock of the read; and a following
  \<^verbatim>\<open>incrementCacheHit\<close> (or \<^verbatim>\<open>incrementCacheMiss\<close>) leaves \<open>hits\<close> (or
  \<open>misses\<close>) at one and the other counter at zero.
\<close>

theorem C8_reset_then_count_from_zero:
  assumes "\<not> kv_put_rejects env_reset" and "\<not> kv_get_rejects env_read"
    and "\<not> kv_get_rejects env_next" and "\<not> kv_put_rejects env_next"
  shows "resetCacheStats env_reset w =
           (Inr (), w\<lparr>kv_stats := Some \<lparr>hits = 0, misses = 0, lastReset = now env_reset\<rparr>\<rparr>,
            [KV_put \<lparr>hits = 0, misses = 0, lastReset = now env_reset\<rparr>])
       \<and> getCacheStats env_read (w\<lparr>kv_stats := Some \<lparr>hits = 0, misses = 0, lastReset = now env_reset\<rparr>\<rparr>) =
           (Inr \<lparr>hits = 0, misses = 0, lastReset = now env_reset\<rparr>,
            w\<lparr>kv_stats := Some \<lparr>hits = 0, misses = 0, lastReset = now env_reset\<rparr>\<rparr>, [KV_get])
       \<and> incrementCacheHit env_next (w\<lparr>kv_stats := Some \<lparr>hits = 0, misses = 0, lastReset = now env_reset\<rparr>\<rparr>) =
           (Inr (), w\<lparr>kv_stats := Some \<lparr>hits = 1, misses = 0, lastReset = now env_reset\<rparr>\<rparr>,
            [KV_get, KV_put \<lparr>hits = 1, misses = 0, lastReset = now env_reset\<rparr>])
       \<and> incrementCacheMiss env_next (w\<lparr>kv_stats := Some \<lparr>hits = 0, misses = 0, lastReset = now env_reset\<rparr>\<rparr>) =
           (Inr (), w\<lparr>kv_stats := Some \<lparr>hits = 0, misses = 1, lastReset = now env_reset\<rparr>\<rparr>,
            [KV_get, KV_put \<lparr>hits = 0, misses = 1, lastReset = now env_reset\<rparr>])"
  using assms
  by (simp add: resetCacheStats_def CACHE_STATS_put_def getCacheStats_eq incrementCacheHit_eq incrementCacheMiss_eq stats_of_def)


theorem C8_reset_then_count_from_zero_witness:
  "resetCacheStats ex_env ex_world =
     (Inr (), ex_world\<lparr>kv_stats := Some \<lparr>hits = 0, misses = 0, lastReset = ''2024-01-15T10:30:00.000Z''\<rparr>\<rparr>,
      [KV_put \<lparr>hits = 0, misses = 0, lastReset = ''2024-01-15T10:30:00.000Z''\<rparr>])
   \<and> getCacheStats (ex_env\<lparr>now := ''2024-01-15T10:31:00.000Z''\<rparr>)
        (ex_world\<lparr>kv_stats := Some \<lparr>hits = 0, misses = 0, lastReset = ''2024-01-15T10:30:00.000Z''\<rparr>\<rparr>) =
     (Inr \<lparr>hits = 0, misses = 0, lastReset = ''2024-01-15T10:30:00.000Z''\<rparr>,
      ex_world\<lparr>kv_stats := Some \<lparr>hits = 0, misses = 0, lastReset = ''2024-01-15T10:30:00.000Z''\<rparr>\<rparr>, [KV_get])
   \<and> kv_stats (fst (snd (incrementCacheHit (ex_env\<lparr>now := ''2024-01-15T10:32:00.000Z''\<rparr>)
        (ex_world\<lparr>kv_stats := Some \<lparr>hits = 0, misses = 0, lastReset = ''2024-01-15T10:30:00.000Z''\<rparr>\<rparr>))))
       = Some \<lparr>hits = 1, misses = 0, lastReset = ''2024-01-15T10:30:00.000Z''\<rparr>
   \<and> kv_stats (fst (snd (incrementCacheMiss (ex_env\<lparr>now := ''2024-01-15T10:32:00.000Z''\<rparr>)
        (ex_world\<lparr>kv_stats := Some \<lparr>hits = 0, misses = 0, lastReset = ''2024-01-15T10:30:00.000Z''\<rparr>\<rparr>))))
       = Some \<lparr>hits = 0, misses = 1, lastReset = ''2024-01-15T10:30:00.000Z''\<rparr>"
proof -
  have a: "\<not> kv_put_rejects ex_env" by (simp add: ex_env_def)
  have b: "\<not> kv_get_rejects (ex_env\<lparr>now := ''2024-01-15T10:31:00.000Z''\<rparr>)" by (simp add: ex_env_def)
  have c: "\<not> kv_get_rejects (ex_env\<lparr>now := ''2024-01-15T10:32:00.000Z''\<rparr>)" by (simp add: ex_env_def)
  have d: "\<not> kv_put_rejects (ex_env\<lparr>now := ''2024-01-15T10:32:00.000Z''\<rparr>)" by (simp add: ex_env_def)
  have n: "now ex_env = ''2024-01-15T10:30:00.000Z''" by (simp add: ex_env_def)
  from C8_reset_then_count_from_zero [OF a b c d, of ex_world] show ?thesis unfolding n by simp
qed

subsection \<open>Entry listing\<close>

lemma entries_listing_eq:
  "entries_listing keys =
     \<lparr>body = Json (JObject
        [(''count'', JNumber (length keys)),
         (''entries'', JArray
            (map (\<lambda>req. JObject [(''url'', JString (url req)), (''method'', JString (http_method req))])
               (take 50 keys)))]),
      status = 200, headers = [(''Content-Type'', ''application/json'')]\<rparr>"
  by (simp add: entries_listing_def json_response_def Let_def take_map)

text \<open>
  Claim C9. The endpoint \<^verbatim>\<open>/cache-entries\<close> asks the cache for its keys with
  \<^verbatim>\<open>cache.keys()\<close>, which the cache of the Workers runtime does not implement: the
  call throws, nothing catches it, and the handler rejects without a response, with 73
  cached items as with none. The lines after the call are never reached; on the 73 keys
  they would give the listing the claim describes (\<open>count\<close> 73 and the URL and
  method of the first 50 keys).
\<close>

theorem C9_entries_listing_not_reached:
  "length (cache ex_world_73) = 73
   \<and> fetch ex_env ex_request_entries ex_world_73 =
       (Inl CacheKeysNotImplemented, ex_world_73, [Cache_keys])
   \<and> fetch ex_env ex_request_entries ex_world_empty =
       (Inl CacheKeysNotImplemented, ex_world_empty, [Cache_keys])
   \<and> entries_listing (map fst (cache ex_world_73)) =
       \<lparr>body = Json (JObject
          [(''count'', JNumber 73),
           (''entries'', JArray
              (map (\<lambda>i. JObject
                      [(''url'', JString (''https://w.dev/svg?mermaid='' @ string_of_nat i)),
                       (''method'', JString ''GET'')])
                 [0..<50]))]),
        status = 200, headers = [(''Content-Type'', ''application/json'')]\<rparr>"
proof -
  have "take 50 [0..<73] = [0..<50]" by (simp add: take_upt)
  then have "entries_listing (map fst (cache ex_world_73)) =
       \<lparr>body = Json (JObject
          [(''count'', JNumber 73),
           (''entries'', JArray
              (map (\<lambda>i. JObject
                      [(''url'', JString (''https://w.dev/svg?mermaid='' @ string_of_nat i)),
                       (''method'', JString ''GET'')])
                 [0..<50]))]),
        status = 200, headers = [(''Content-Type'', ''application/json'')]\<rparr>"
    by (simp add: entries_listing_eq ex_world_73_def ex_key_def take_map comp_def)
  moreover have "fetch ex_env ex_request_entries w = (Inl CacheKeysNotImplemented, w, [Cache_keys])" for w
    by (simp add: fetch_def cache_entries_def await_def cache_keys_def ex_request_entries_def)
  ultimately show ?thesis by (simp add: ex_world_73_def)
qed

subsection \<open>The counters along an execution\<close>

lemma settle_kv: "kv_stats (settle env t w) = kv_stats w"
proof (induction t arbitrary: w)
  case Nil
  show ?case by simp
next
  case (Cons e t)
  then show ?case by (cases e) (simp_all add: cache_put_def)
qed

lemma settle_rejecting: "cache_put_rejects env \<Longrightarrow> settle env t w = w"
proof (induction t)
  case Nil
  show ?case by simp
next
  case (Cons e t)
  then show ?case by (cases e) (simp_all add: cache_put_def)
qed

lemma platform_ignores_put_outcome:
  "CACHE_STATS_get (env\<lparr>cache_put_rejects := b\<rparr>) = CACHE_STATS_get env"
  "CACHE_STATS_put (env\<lparr>cache_put_rejects := b\<rparr>) = CACHE_STATS_put env"
  "cache_match (env\<lparr>cache_put_rejects := b\<rparr>) = cache_match env"
  "cache_keys (env\<lparr>cache_put_rejects := b\<rparr>) = cache_keys env"
  "browser_render (env\<lparr>cache_put_rejects := b\<rparr>) = browser_render env"
  by (simp_all add: fun_eq_iff CACHE_STATS_get_def CACHE_STATS_put_def cache_match_def
      cache_keys_def browser_render_def)

lemma stats_ignore_put_outcome:
  "getCacheStats (env\<lparr>cache_put_rejects := b\<rparr>) = getCacheStats env"
  "incrementCacheHit (env\<lparr>cache_put_rejects := b\<rparr>) = incrementCacheHit env"
  "incrementCacheMiss (env\<lparr>cache_put_rejects := b\<rparr>) = incrementCacheMiss env"
  "resetCacheStats (env\<lparr>cache_put_rejects := b\<rparr>) = resetCacheStats env"
  by (simp_all add: getCacheStats_def incrementCacheHit_def incrementCacheMiss_def
      resetCacheStats_def platform_ignores_put_outcome cong: option.case_cong)

lemma fetch_ignores_put_outcome:
  "fetch (env\<lparr>cache_put_rejects := b\<rparr>) request = fetch env request"
proof -
  have "decode (env\<lparr>cache_put_rejects := b\<rparr>) request = decode env request"
    by (simp add: decode_def Let_def)
  moreover have "render_and_store (env\<lparr>cache_put_rejects := b\<rparr>) request = render_and_store env request"
    by (rule ext) (simp add: render_and_store_def platform_ignores_put_outcome)
  ultimately have "render_pipeline (env\<lparr>cache_put_rejects := b\<rparr>) request = render_pipeline env request"
    by (simp add: render_pipeline_def platform_ignores_put_outcome stats_ignore_put_outcome
        cong: sum.case_cong option.case_cong)
  then show ?thesis
    by (simp add: fetch_def cache_stats_view_def cache_stats_reset_def cache_entries_def
        platform_ignores_put_outcome stats_ignore_put_outcome)
qed

lemma render_and_store_no_lookup:
  "render_and_store env request s w = (r, w1, t) \<Longrightarrow> filter is_lookup t = []"
  by (auto simp: render_and_store_def io_defs Let_def split: if_splits sum.splits)

lemma hits_misses_settle: "hits_misses (settle env t w) = hits_misses w"
  by (simp add: hits_misses_def settle_kv)

lemma counted_hits_misses: "counted w = fst (hits_misses w) + snd (hits_misses w)"
  by (simp add: counted_def hits_misses_def split: option.splits)

lemma fetch_step:
  assumes "stores_answer env" and "fetch env request w = (r, w1, t)"
  shows "hits_misses w1 =
           (if pathname request = ''/cache-stats/reset'' then (0, 0)
            else if filter is_lookup t = [] then hits_misses w
            else if lookup_url (url request) (cache w) = None
            then (fst (hits_misses w), snd (hits_misses w) + 1)
            else (fst (hits_misses w) + 1, snd (hits_misses w)))
       \<and> length (filter is_lookup t) \<le> 1"
proof -
  consider (stats) "pathname request = ''/cache-stats''"
    | (reset) "pathname request = ''/cache-stats/reset''"
    | (entries) "pathname request = ''/cache-entries''"
    | (other) "pathname request \<noteq> ''/cache-stats''" "pathname request \<noteq> ''/cache-stats/reset''"
        "pathname request \<noteq> ''/cache-entries''" "pathname request \<noteq> ''/svg''"
    | (svg) "pathname request = ''/svg''"
    by blast
  then show ?thesis
  proof cases
    case stats
    with assms(2) have "cache_stats_view env w = (r, w1, t)" by (simp add: fetch_def)
    then have "w1 = w \<and> t = [KV_get]" by (rule cache_stats_view_trace)
    with stats show ?thesis by simp
  next
    case reset
    with assms show ?thesis
      by (auto simp: fetch_def cache_stats_reset_def resetCacheStats_def await_def
          CACHE_STATS_put_def return_def stores_answer_def hits_misses_def)
  next
    case entries
    with assms(2) have "cache_entries env w = (r, w1, t)" by (simp add: fetch_def)
    then have "w1 = w \<and> t = [Cache_keys]" by (rule cache_entries_trace)
    with entries show ?thesis by simp
  next
    case other
    with assms(2) show ?thesis by (auto simp: fetch_def return_def)
  next
    case svg
    show ?thesis
    proof (cases "decode env request")
      case (Inl resp)
      with svg assms(2) show ?thesis by (auto simp: fetch_svg render_pipeline_eq)
    next
      case (Inr s)
      show ?thesis
      proof (cases "lookup_url (url request) (cache w)")
        case (Some cached)
        from hit_path[OF svg Inr assms(1) Some] assms(2) svg Some show ?thesis
          by (auto simp: hits_misses_def stats_of_def split: option.splits)
      next
        case None
        let ?w = "w\<lparr>kv_stats := Some ((stats_of env w)\<lparr>misses := misses (stats_of env w) + 1\<rparr>)\<rparr>"
        obtain r2 w2 t2 where rs: "render_and_store env request s ?w = (r2, w2, t2)"
          by (cases "render_and_store env request s ?w") auto
        then have w2: "w2 = ?w" and t2: "filter is_lookup t2 = []"
          by (simp_all add: render_and_store_world render_and_store_no_lookup)
        from miss_path[OF svg Inr assms(1) None] rs assms(2)
        have "w1 = w2" and "t = [Cache_match (url request), KV_get,
            KV_put ((stats_of env w)\<lparr>misses := misses (stats_of env w) + 1\<rparr>)] @ miss_log request s @ t2"
          by simp_all
        with w2 t2 svg None show ?thesis
          by (auto simp: hits_misses_def stats_of_def miss_log_def split: option.splits)
      qed
    qed
  qed
qed

lemma serve_counted:
  assumes "stores_answer env" and "serve env request w = (r, w1, t)"
  shows "counted w1 =
           (if pathname request = ''/cache-stats/reset'' then 0
            else counted w + length (filter is_lookup t))"
proof -
  obtain w0 where f: "fetch env request w = (r, w0, t)" and w1: "w1 = settle env t w0"
    using assms(2) by (auto simp: serve_def split: prod.splits)
  from fetch_step[OF assms(1) f]
  have hm: "hits_misses w0 =
           (if pathname request = ''/cache-stats/reset'' then (0, 0)
            else if filter is_lookup t = [] then hits_misses w
            else if lookup_url (url request) (cache w) = None
            then (fst (hits_misses w), snd (hits_misses w) + 1)
            else (fst (hits_misses w) + 1, snd (hits_misses w)))"
    and le: "length (filter is_lookup t) \<le> 1" by simp_all
  have "length (filter is_lookup t) = 1" if "filter is_lookup t \<noteq> []"
    using that le by (cases "filter is_lookup t") auto
  with hm show ?thesis
    by (auto simp: counted_hits_misses w1 hits_misses_settle)
qed

lemma run_counted:
  "list_all (\<lambda>(env, request). stores_answer env) steps \<Longrightarrow>
   counted (fst (run steps w)) = lookups_since_reset (counted w) (snd (run steps w))"
proof (induction steps arbitrary: w)
  case Nil
  show ?case by simp
next
  case (Cons step steps)
  obtain env request where step: "step = (env, request)" by (cases step)
  obtain r w1 t where s: "serve env request w = (r, w1, t)" by (cases "serve env request w") auto
  from Cons.prems step have a: "stores_answer env"
    and rest: "list_all (\<lambda>(env, request). stores_answer env) steps" by simp_all
  from serve_counted[OF a s] Cons.IH[OF rest, of w1] step s
  show ?case by (simp add: case_prod_unfold)
qed

lemma ex_run: "run ex_steps ex_world =
   (\<lparr>kv_stats = Some \<lparr>hits = 1, misses = 0, lastReset = ''2024-01-15T10:30:00.000Z''\<rparr>,
      cache = [(ex_request, ex_rendered)]\<rparr>,
    [(ex_request, ex_trace_rendered),
     (ex_request, [Cache_match ''https://w.dev/svg?mermaid=A-B'', KV_get,
         KV_put \<lparr>hits = 46, misses = 13, lastReset = ''2024-01-01T00:00:00.000Z''\<rparr>,
         Console_log ''Cache HIT for URL: https://w.dev/svg?mermaid=A-B'']),
     (ex_request_reset, [KV_put \<lparr>hits = 0, misses = 0, lastReset = ''2024-01-15T10:30:00.000Z''\<rparr>]),
     (ex_request, [Cache_match ''https://w.dev/svg?mermaid=A-B'', KV_get,
         KV_put \<lparr>hits = 1, misses = 0, lastReset = ''2024-01-15T10:30:00.000Z''\<rparr>,
         Console_log ''Cache HIT for URL: https://w.dev/svg?mermaid=A-B''])])"
  by (simp add: ex_steps_def serve_def cache_put_def ex_defs eval_defs ex_rendered_def ex_trace_rendered_def
      ex_request_reset_def cache_stats_reset_def json_response_def)


text \<open>
  Claim C7, as amended. In a sequential execution in which the Stats Store and the cache
  lookup answer, \<open>hits + misses\<close> as stored after the execution is the number of cache lookups
  made since the last reset request, counted on top of the stored sum at the start. And
  for one request: it makes at most one lookup; a reset request leaves both counters at
  zero; a request without a lookup leaves both as they were; a request with a lookup
  adds one to \<open>hits\<close> alone when the URL was cached and one to \<open>misses\<close> alone when
  it was not.
\<close>

theorem C7_counters_count_lookups:
  assumes "list_all (\<lambda>(env, request). stores_answer env) steps"
    and "stores_answer env" and "fetch env request w0 = (r, w1, t)"
  shows "counted (fst (run steps w)) = lookups_since_reset (counted w) (snd (run steps w))
       \<and> length (filter is_lookup t) \<le> 1
       \<and> hits_misses w1 =
           (if pathname request = ''/cache-stats/reset'' then (0, 0)
            else if filter is_lookup t = [] then hits_misses w0
            else if lookup_url (url request) (cache w0) = None
            then (fst (hits_misses w0), snd (hits_misses w0) + 1)
            else (fst (hits_misses w0) + 1, snd (hits_misses w0)))"
  using run_counted[OF assms(1)] fetch_step[OF assms(2,3)] by simp


theorem C7_counters_count_lookups_witness:
  "list_all (\<lambda>(env, request). stores_answer env) ex_steps
   \<and> counted ex_world = 57
   \<and> counted (fst (run ex_steps ex_world)) = 1
   \<and> lookups_since_reset 57 (snd (run ex_steps ex_world)) = 1
   \<and> hits_misses ex_world_cached = (45, 12)
   \<and> hits_misses (fst (snd (fetch ex_env ex_request ex_world_cached))) = (46, 12)"
proof -
  have a: "stores_answer ex_env" by (simp add: stores_answer_def ex_env_def)
  then have all: "list_all (\<lambda>(env, request). stores_answer env) ex_steps"
    by (simp add: ex_steps_def)
  have hit: "fetch ex_env ex_request ex_world_cached =
       (Inr ex_svg,
        ex_world_cached\<lparr>kv_stats := Some \<lparr>hits = 46, misses = 12, lastReset = ''2024-01-01T00:00:00.000Z''\<rparr>\<rparr>,
        [Cache_match ''https://w.dev/svg?mermaid=A-B'', KV_get,
         KV_put \<lparr>hits = 46, misses = 12, lastReset = ''2024-01-01T00:00:00.000Z''\<rparr>,
         Console_log ''Cache HIT for URL: https://w.dev/svg?mermaid=A-B''])"
    by (simp add: ex_defs eval_defs)
  have c: "counted ex_world = 57" by (simp add: counted_def ex_world_def)
  have h: "hits_misses ex_world_cached = (45, 12)"
    by (simp add: hits_misses_def ex_world_cached_def ex_world_def)
  from C7_counters_count_lookups [OF all a hit, of ex_world] show ?thesis
    using all c h hit by (simp add: ex_run hits_misses_def ex_request_def ex_request_reset_def)
qed


text \<open>
  Without the amendment the claim fails: a miss whose KV write rejects has made its
  lookup and leaves the stored counters as they were.
\<close>

theorem C7_counters_count_lookups_counterexample:
  "counted ex_world = 57
   \<and> run [(ex_env\<lparr>kv_put_rejects := True\<rparr>, ex_request)] ex_world =
       (ex_world,
        [(ex_request,
          [Cache_match ''https://w.dev/svg?mermaid=A-B'', KV_get,
           KV_put \<lparr>hits = 45, misses = 13, lastReset = ''2024-01-01T00:00:00.000Z''\<rparr>])])
   \<and> counted (fst (run [(ex_env\<lparr>kv_put_rejects := True\<rparr>, ex_request)] ex_world)) = 57
   \<and> lookups_since_reset 57 (snd (run [(ex_env\<lparr>kv_put_rejects := True\<rparr>, ex_request)] ex_world)) = 58"
proof -
  have r: "run [(ex_env\<lparr>kv_put_rejects := True\<rparr>, ex_request)] ex_world =
       (ex_world,
        [(ex_request,
          [Cache_match ''https://w.dev/svg?mermaid=A-B'', KV_get,
           KV_put \<lparr>hits = 45, misses = 13, lastReset = ''2024-01-01T00:00:00.000Z''\<rparr>])])"
    by (simp add: serve_def ex_defs eval_defs)
  have c: "counted ex_world = 57" by (simp add: counted_def ex_world_def)
  show ?thesis unfolding r using c by (simp add: ex_request_def)
qed

subsection \<open>Failures of the stores\<close>

text \<open>
  Claim C1, as amended. The outcome of the store into the cache never reaches the
  handler: response, state and calls of the handler are the same whether the store
  rejects or not, and a request whose store rejects ends in exactly the state the handler
  left, with nothing logged. A rejecting cache lookup is not treated as a miss: the
  handler has no \<^verbatim>\<open>catch\<close> around \<^verbatim>\<open>cache.match\<close>, so it rejects with the error of
  the lookup; it produces no response, records no miss, logs nothing and does not call
  the renderer.
\<close>

theorem C1_store_failures:
  "fetch (env\<lparr>cache_put_rejects := b\<rparr>) request w = fetch env request w
   \<and> serve (env\<lparr>cache_put_rejects := True\<rparr>) request w = fetch env request w
   \<and> (pathname request = ''/svg'' \<and> decode env request = Inr s \<and> cache_match_rejects env \<longrightarrow>
        fetch env request w = (Inl CacheMatchRejected, w, [Cache_match (url request)]))"
proof -
  have a: "fetch (env\<lparr>cache_put_rejects := b\<rparr>) request w = fetch env request w"
    by (simp add: fetch_ignores_put_outcome)
  have b: "serve (env\<lparr>cache_put_rejects := True\<rparr>) request w = fetch env request w"
    by (simp add: serve_def fetch_ignores_put_outcome settle_rejecting split: prod.splits)
  have c: "fetch env request w = (Inl CacheMatchRejected, w, [Cache_match (url request)])"
    if "pathname request = ''/svg''" "decode env request = Inr s" "cache_match_rejects env"
    using that by (simp add: fetch_svg render_pipeline_eq)
  from a b c show ?thesis by blast
qed

theorem C1_store_failures_witness:
  "pathname ex_request = ''/svg''
   \<and> decode (ex_env\<lparr>cache_match_rejects := True\<rparr>) ex_request = Inr ''graph TD; A-B''
   \<and> cache_match_rejects (ex_env\<lparr>cache_match_rejects := True\<rparr>)
   \<and> serve (ex_env\<lparr>cache_put_rejects := True\<rparr>) ex_request ex_world = fetch ex_env ex_request ex_world
   \<and> fst (serve (ex_env\<lparr>cache_put_rejects := True\<rparr>) ex_request ex_world) = Inr ex_rendered
   \<and> cache (fst (snd (serve (ex_env\<lparr>cache_put_rejects := True\<rparr>) ex_request ex_world))) = []
   \<and> fetch (ex_env\<lparr>cache_match_rejects := True\<rparr>) ex_request ex_world =
       (Inl CacheMatchRejected, ex_world, [Cache_match (url ex_request)])"
proof -
  have p: "pathname ex_request = ''/svg''" by (simp add: ex_request_def)
  have d: "decode (ex_env\<lparr>cache_match_rejects := True\<rparr>) ex_request = Inr ''graph TD; A-B''"
    by (simp add: decode_def searchParams_get_def falsy_def ex_defs)
  have m: "cache_match_rejects (ex_env\<lparr>cache_match_rejects := True\<rparr>)" by simp
  have run: "fetch ex_env ex_request ex_world =
     (Inr ex_rendered,
      ex_world\<lparr>kv_stats := Some \<lparr>hits = 45, misses = 13, lastReset = ''2024-01-01T00:00:00.000Z''\<rparr>\<rparr>,
      ex_trace_rendered)"
    by (simp add: ex_defs eval_defs ex_rendered_def ex_trace_rendered_def)
  note c1 = C1_store_failures [where env = ex_env and b = True and request = ex_request
      and w = ex_world and s = "''graph TD; A-B''"]
  note c2 = C1_store_failures [where env = "ex_env\<lparr>cache_match_rejects := True\<rparr>" and b = True
      and request = ex_request and w = ex_world and s = "''graph TD; A-B''"]
  from c1 have "serve (ex_env\<lparr>cache_put_rejects := True\<rparr>) ex_request ex_world = fetch ex_env ex_request ex_world"
    by simp
  moreover from c2 p d m have "fetch (ex_env\<lparr>cache_match_rejects := True\<rparr>) ex_request ex_world =
       (Inl CacheMatchRejected, ex_world, [Cache_match (url ex_request)])"
    by simp
  ultimately show ?thesis using p d m run by (simp add: ex_world_def)
qed

theorem C1_store_failures_counterexample:
  "fetch ex_env ex_request ex_world =
     (Inr ex_rendered,
      ex_world\<lparr>kv_stats := Some \<lparr>hits = 45, misses = 13, lastReset = ''2024-01-01T00:00:00.000Z''\<rparr>\<rparr>,
      ex_trace_rendered)
   \<and> fetch (ex_env\<lparr>cache_match_rejects := True\<rparr>) ex_request ex_world =
       (Inl CacheMatchRejected, ex_world, [Cache_match ''https://w.dev/svg?mermaid=A-B''])"
  by (simp add: ex_defs eval_defs ex_rendered_def ex_trace_rendered_def)

subsection \<open>Numbers: digits and binary64 rounding\<close>

lemma string_of_nat_small: "n < 10 \<Longrightarrow> string_of_nat n = [digit n]"
  by (simp add: string_of_nat.simps)

lemma string_of_nat_step: "10 \<le> n \<Longrightarrow> string_of_nat n = string_of_nat (n div 10) @ [digit (n mod 10)]"
  by (subst string_of_nat.simps) simp

lemma length_string_of_nat: "0 < length (string_of_nat n)"
  by (subst string_of_nat.simps) simp

lemma toFixed2_format:
  assumes "0 \<le> x"
  shows "toFixed2 x = two_decimals (nat \<lfloor>x * 100 + 1 / 2\<rfloor>)"
proof -
  define n where "n = nat \<lfloor>x * 100 + 1 / 2\<rfloor>"
  have abs: "\<bar>x\<bar> = x" using assms by simp
  have neg: "\<not> x < 0" using assms by simp
  consider (one) "n < 10" | (two) "10 \<le> n" "n < 100" | (many) "100 \<le> n" by linarith
  then have "toFixed2 x = two_decimals n"
  proof cases
    case one
    then have "string_of_nat n = [digit n]" by (rule string_of_nat_small)
    moreover have "n = 0 \<Longrightarrow> ''0'' = [digit n]" by (simp add: digit_def)
    ultimately show ?thesis using one neg
      by (simp add: toFixed2_def abs n_def[symmetric] two_decimals_def Let_def string_of_nat_small digit_def)
  next
    case two
    then have "string_of_nat n = [digit (n div 10), digit (n mod 10)]"
      by (simp add: string_of_nat_step string_of_nat_small)
    moreover have "n div 100 = 0" "n div 10 mod 10 = n div 10" using two by simp_all
    ultimately show ?thesis using two neg
      by (simp add: toFixed2_def abs n_def[symmetric] two_decimals_def Let_def string_of_nat_small digit_def)
  next
    case many
    then have "10 \<le> n div 10" by simp
    moreover have "n div 10 div 10 = n div 100" by (simp add: div_mult2_eq[symmetric])
    ultimately have "string_of_nat n = string_of_nat (n div 100) @ [digit (n div 10 mod 10), digit (n mod 10)]"
      using many by (simp add: string_of_nat_step[of n] string_of_nat_step[of "n div 10"])
    moreover have "0 < length (string_of_nat (n div 100))" by (rule length_string_of_nat)
    ultimately show ?thesis using many neg
      by (simp add: toFixed2_def abs n_def[symmetric] two_decimals_def Let_def)
  qed
  then show ?thesis by (simp add: n_def)
qed

lemma round_ties_even_error: "\<bar>of_int (round_ties_even q) - q\<bar> \<le> 1 / 2"
proof -
  have "of_int \<lfloor>q\<rfloor> \<le> q" "q < of_int \<lfloor>q\<rfloor> + 1" by linarith+
  then show ?thesis by (auto simp: round_ties_even_def Let_def)
qed

lemma round_ties_even_nonneg: "0 \<le> q \<Longrightarrow> 0 \<le> round_ties_even q"
  by (auto simp: round_ties_even_def Let_def)

lemma ilog2_lower:
  assumes "0 < q"
  shows "2 powi (ilog2 q) \<le> q"
proof -
  obtain a b where ab: "quotient_of q = (a, b)" by (cases "quotient_of q")
  then have b: "0 < b" and q: "q = of_int a / of_int b"
    by (simp_all add: quotient_of_denom_pos quotient_of_div)
  with assms have a: "0 < a" by (simp add: zero_less_divide_iff)
  let ?d = "bitlen a - bitlen b"
  show ?thesis
  proof (cases "2 powi ?d \<le> q")
    case True
    then show ?thesis by (simp add: ilog2_def ab Let_def)
  next
    case False
    have la: "0 \<le> bitlen a - 1" using a by (simp add: bitlen_alt_def)
    have lb: "0 \<le> bitlen b" by (rule bitlen_nonneg)
    from bitlen_bounds[OF a] have "(2::int) ^ nat (bitlen a - 1) \<le> a" by simp
    then have "(of_int ((2::int) ^ nat (bitlen a - 1)) :: rat) \<le> of_int a" by (simp only: of_int_le_iff)
    then have lo: "(2::rat) powi (bitlen a - 1) \<le> of_int a" using la by (simp add: power_int_def)
    from bitlen_bounds[OF b] have "b \<le> (2::int) ^ nat (bitlen b)" by simp
    then have "(of_int b :: rat) \<le> of_int ((2::int) ^ nat (bitlen b))" by (simp only: of_int_le_iff)
    then have hi: "of_int b \<le> (2::rat) powi (bitlen b)" using lb by (simp add: power_int_def)
    have "?d - 1 = (bitlen a - 1) - bitlen b" by simp
    then have "(2::rat) powi (?d - 1) = 2 powi (bitlen a - 1) / 2 powi (bitlen b)"
      by (simp only: power_int_diff[of "2::rat" "bitlen a - 1" "bitlen b", simplified])
    also have "\<dots> \<le> of_int a / of_int b"
      using lo hi a b by (intro frac_le) simp_all
    finally have "(2::rat) powi (?d - 1) \<le> q" by (simp only: q)
    with False show ?thesis by (simp add: ilog2_def ab Let_def)
  qed
qed

lemma binary64_error:
  assumes "0 \<le> q"
  shows "\<bar>binary64 q - q\<bar> \<le> q / 2 ^ 53"
proof (cases "q = 0")
  case True
  then show ?thesis by (simp add: binary64_def)
next
  case False
  with assms have pos: "0 < q" by simp
  define e where "e = ilog2 q - 52"
  define p :: rat where "p = 2 powi e"
  have p: "0 < p" by (simp add: p_def)
  have "p * 2 ^ 52 = 2 powi (ilog2 q)"
    by (simp add: p_def e_def power_int_diff)
  with ilog2_lower[OF pos] have low: "p * 2 ^ 52 \<le> q" by simp
  have b: "binary64 q = of_int (round_ties_even (q / p)) * p"
    using pos by (simp add: binary64_def e_def p_def Let_def)
  have "binary64 q - q = (of_int (round_ties_even (q / p)) - q / p) * p"
    using p by (simp add: b algebra_simps)
  then have "\<bar>binary64 q - q\<bar> = \<bar>of_int (round_ties_even (q / p)) - q / p\<bar> * p"
    using p by (simp add: abs_mult)
  also have "\<dots> \<le> (1 / 2) * p"
    using round_ties_even_error[of "q / p"] p by (intro mult_right_mono) simp_all
  also have "\<dots> = (p * 2 ^ 52) / 2 ^ 53" by simp
  also have "\<dots> \<le> q / 2 ^ 53" using low by (intro divide_right_mono) simp_all
  finally show ?thesis .
qed

lemma binary64_nonneg: "0 \<le> q \<Longrightarrow> 0 \<le> binary64 q"
  by (simp add: binary64_def Let_def round_ties_even_nonneg)

lemma hit_rate_error:
  assumes "0 < t" and "h \<le> t"
  shows "0 \<le> js_times (js_divide (of_nat h) (of_nat t)) 100"
    and "\<bar>js_times (js_divide (of_nat h) (of_nat t)) 100 - 100 * of_nat h / of_nat t\<bar> \<le> 1 / 10 ^ 13"
proof -
  define q :: rat where "q = of_nat h / of_nat t"
  define f where "f = binary64 q"
  define x where "x = binary64 (f * 100)"
  have q: "0 \<le> q" "q \<le> 1" using assms by (simp_all add: q_def)
  have f0: "0 \<le> f" using q(1) by (simp add: f_def binary64_nonneg)
  have "\<bar>f - q\<bar> \<le> q / 2 ^ 53" unfolding f_def using q(1) by (rule binary64_error)
  also have "\<dots> \<le> 1 / 2 ^ 53" using q(2) by (intro divide_right_mono) simp_all
  finally have fe: "\<bar>f - q\<bar> \<le> 1 / 2 ^ 53" .
  then have f1: "f \<le> 1 + 1 / 2 ^ 53" using q(2) by linarith
  have "\<bar>x - f * 100\<bar> \<le> (f * 100) / 2 ^ 53"
    unfolding x_def using f0 by (intro binary64_error) simp
  also have "\<dots> \<le> ((1 + 1 / 2 ^ 53) * 100) / 2 ^ 53"
    using f1 by (intro divide_right_mono mult_right_mono) simp_all
  finally have xe: "\<bar>x - f * 100\<bar> \<le> ((1 + 1 / 2 ^ 53) * 100) / 2 ^ 53" .
  from xe fe have "x - f * 100 \<le> ((1 + 1 / 2 ^ 53) * 100) / 2 ^ 53"
    "- (((1 + 1 / 2 ^ 53) * 100) / 2 ^ 53) \<le> x - f * 100"
    "f - q \<le> 1 / 2 ^ 53" "- (1 / 2 ^ 53) \<le> f - q"
    unfolding abs_le_iff by linarith+
  then have "x - 100 * q \<le> 1 / 10 ^ 13" "- (1 / 10 ^ 13) \<le> x - 100 * q"
    by simp_all
  then have "\<bar>x - 100 * q\<bar> \<le> 1 / 10 ^ 13" unfolding abs_le_iff by linarith
  then show "\<bar>js_times (js_divide (of_nat h) (of_nat t)) 100 - 100 * of_nat h / of_nat t\<bar> \<le> 1 / 10 ^ 13"
    by (simp add: x_def f_def q_def js_times_def js_divide_def)
  show "0 \<le> js_times (js_divide (of_nat h) (of_nat t)) 100"
    using f0 by (simp add: js_times_def js_divide_def f_def q_def binary64_nonneg)
qed

lemma nearest_hundredth:
  fixes x :: rat
  assumes "0 \<le> x"
  shows "\<bar>of_nat (nat \<lfloor>x * 100 + 1 / 2\<rfloor>) / 100 - x\<bar> \<le> 1 / 200"
proof -
  define k where "k = \<lfloor>x * 100 + 1 / 2\<rfloor>"
  have nn: "0 \<le> k" using assms by (simp add: k_def)
  have "of_int k \<le> x * 100 + 1 / 2" "x * 100 + 1 / 2 < of_int k + 1"
    unfolding k_def by linarith+
  then have "\<bar>of_int k / 100 - x\<bar> \<le> 1 / 200" unfolding abs_le_iff by linarith
  moreover have "(of_nat (nat k) :: rat) = of_int k" using nn by simp
  ultimately show ?thesis by (simp add: k_def)
qed

lemma ilog2_upper:
  assumes "0 < q"
  shows "q < 2 powi (ilog2 q + 1)"
proof -
  obtain a b where ab: "quotient_of q = (a, b)" by (cases "quotient_of q")
  then have b: "0 < b" and q: "q = of_int a / of_int b"
    by (simp_all add: quotient_of_denom_pos quotient_of_div)
  with assms have a: "0 < a" by (simp add: zero_less_divide_iff)
  let ?d = "bitlen a - bitlen b"
  show ?thesis
  proof (cases "2 powi ?d \<le> q")
    case False
    then show ?thesis by (simp add: ilog2_def ab Let_def)
  next
    case True
    have la: "0 \<le> bitlen a" by (rule bitlen_nonneg)
    have lb: "0 \<le> bitlen b - 1" using b by (simp add: bitlen_alt_def)
    from bitlen_bounds[OF a] have "a < (2::int) ^ nat (bitlen a)" by simp
    then have "(of_int a :: rat) < of_int ((2::int) ^ nat (bitlen a))" by (simp only: of_int_less_iff)
    then have hi: "of_int a < (2::rat) powi (bitlen a)" using la by (simp add: power_int_def)
    from bitlen_bounds[OF b] have "(2::int) ^ nat (bitlen b - 1) \<le> b" by simp
    then have "(of_int ((2::int) ^ nat (bitlen b - 1)) :: rat) \<le> of_int b" by (simp only: of_int_le_iff)
    then have lo: "(2::rat) powi (bitlen b - 1) \<le> of_int b" using lb by (simp add: power_int_def)
    have "of_int a / of_int b < (2::rat) powi (bitlen a) / 2 powi (bitlen b - 1)"
      using hi lo a b by (intro frac_less) simp_all
    also have "?d + 1 = bitlen a - (bitlen b - 1)" by simp
    then have "(2::rat) powi (bitlen a) / 2 powi (bitlen b - 1) = 2 powi (?d + 1)"
      by (simp only: power_int_diff[of "2::rat" "bitlen a" "bitlen b - 1", simplified])
    finally have "q < (2::rat) powi (?d + 1)" by (simp only: q)
    with True show ?thesis by (simp add: ilog2_def ab Let_def)
  qed
qed

lemma binary64_examples:
  "js_divide 1 3 = 6004799503160661 / 18014398509481984"
  "js_divide 45 57 = 3555473390029339 / 4503599627370496"
  "js_times (js_divide 1 800) 100 = 1 / 8"
  "js_times (js_divide 29 400) 100 = 8162774324609023 / 1125899906842624"
  by code_simp+

subsection \<open>The statistics view\<close>

lemma hit_rate_two_decimals:
  assumes "0 < t" and "h \<le> t"
  shows "\<exists>n. toFixed2 (js_times (js_divide (of_nat h) (of_nat t)) 100) = two_decimals n
           \<and> \<bar>of_nat n / 100 - 100 * of_nat h / of_nat t\<bar> \<le> (1 / 200 + 1 / 10 ^ 13 :: rat)"
proof -
  define x where "x = js_times (js_divide (of_nat h) (of_nat t)) 100"
  define n where "n = nat \<lfloor>x * 100 + 1 / 2\<rfloor>"
  have x0: "0 \<le> x" and xe: "\<bar>x - 100 * of_nat h / of_nat t\<bar> \<le> 1 / 10 ^ 13"
    unfolding x_def using assms by (rule hit_rate_error)+
  have fmt: "toFixed2 x = two_decimals n" unfolding n_def using x0 by (rule toFixed2_format)
  have ne: "\<bar>of_nat n / 100 - x\<bar> \<le> 1 / 200" unfolding n_def using x0 by (rule nearest_hundredth)
  from xe ne have "\<bar>of_nat n / 100 - 100 * of_nat h / of_nat t\<bar> \<le> (1 / 200 + 1 / 10 ^ 13 :: rat)"
    unfolding abs_le_iff by linarith
  with fmt show ?thesis unfolding x_def by blast
qed

lemma ex_rate: "toFixed2 (js_times (js_divide 45 57) 100) = ''78.95''"
proof -
  have x: "js_times (js_divide 45 57) 100 = 2777713585960421 / 35184372088832" by code_simp
  have "(0::rat) \<le> 2777713585960421 / 35184372088832" by simp
  then have "toFixed2 (2777713585960421 / 35184372088832) = two_decimals (nat \<lfloor>(2777713585960421 / 35184372088832 :: rat) * 100 + 1 / 2\<rfloor>)"
    by (rule toFixed2_format)
  also have "nat \<lfloor>(2777713585960421 / 35184372088832 :: rat) * 100 + 1 / 2\<rfloor> = 7895" by code_simp
  also have "two_decimals 7895 = ''78.95''"
    by (simp add: two_decimals_def string_of_nat_small string_of_nat_step digit_def)
  finally show ?thesis by (simp only: x)
qed

lemma ex_stats_view:
  "fetch ex_env ex_request_stats ex_world =
     (Inr \<lparr>body = Json (JObject
        [(''hits'', JNumber 45), (''misses'', JNumber 12),
         (''lastReset'', JString ''2024-01-01T00:00:00.000Z''),
         (''total'', JNumber 57), (''hitRate'', JString ''78.95%''),
         (''efficiency'', JString ''45/57 requests served from cache'')]),
             status = 200, headers = [(''Content-Type'', ''application/json'')]\<rparr>,
      ex_world, [KV_get])"
  by (simp add: fetch_def cache_stats_view_def await_def getCacheStats_eq return_def Let_def
      stats_of_def ex_request_stats_def ex_env_def ex_world_def ex_rate json_response_def
      string_of_nat_small string_of_nat_step digit_def)

text \<open>
  Claim C6. The endpoint \<^verbatim>\<open>/cache-stats\<close>, when the KV read answers, returns with
  status 200 and \<^verbatim>\<open>Content-Type: application/json\<close> the JSON object of the record read
  together with \<open>total = hits + misses\<close> and a \<open>hitRate\<close> that is
  \<^verbatim>\<open>0.00%\<close> when the total is zero (the division is not evaluated then) and otherwise
  the two-decimal numeral of some \<open>n / 100\<close> followed by \<^verbatim>\<open>%\<close>, where \<open>n / 100\<close> is
  within half a hundredth of the exact percentage \<open>100 * hits / total\<close>, up to the
  rounding of the two binary64 operations (below \<open>10^-13\<close>). For hits 45 and misses 12
  the view is evaluated: total 57 and hitRate \<^verbatim>\<open>78.95%\<close>.
\<close>

theorem C6_stats_view:
  assumes "pathname request = ''/cache-stats''" and "\<not> kv_get_rejects env"
  shows "(\<exists>rate.
      fetch env request w =
        (Inr \<lparr>body = Json (JObject
           [(''hits'', JNumber (hits (stats_of env w))),
            (''misses'', JNumber (misses (stats_of env w))),
            (''lastReset'', JString (lastReset (stats_of env w))),
            (''total'', JNumber (hits (stats_of env w) + misses (stats_of env w))),
            (''hitRate'', JString (rate @ ''%'')),
            (''efficiency'', JString
               (if hits (stats_of env w) + misses (stats_of env w) > 0
                then string_of_nat (hits (stats_of env w)) @ ''/''
                     @ string_of_nat (hits (stats_of env w) + misses (stats_of env w))
                     @ '' requests served from cache''
                else ''No requests yet''))]),
            status = 200, headers = [(''Content-Type'', ''application/json'')]\<rparr>,
         w, [KV_get])
      \<and> (if hits (stats_of env w) + misses (stats_of env w) = 0 then rate = ''0.00''
         else \<exists>n. rate = two_decimals n
                \<and> \<bar>of_nat n / 100
                    - 100 * of_nat (hits (stats_of env w))
                      / of_nat (hits (stats_of env w) + misses (stats_of env w))\<bar>
                  \<le> (1 / 200 + 1 / 10 ^ 13 :: rat)))
    \<and> fetch ex_env ex_request_stats ex_world =
        (Inr \<lparr>body = Json (JObject
           [(''hits'', JNumber 45), (''misses'', JNumber 12),
            (''lastReset'', JString ''2024-01-01T00:00:00.000Z''),
            (''total'', JNumber 57), (''hitRate'', JString ''78.95%''),
            (''efficiency'', JString ''45/57 requests served from cache'')]),
            status = 200, headers = [(''Content-Type'', ''application/json'')]\<rparr>,
         ex_world, [KV_get])"
proof -
  define h where "h = hits (stats_of env w)"
  define t where "t = hits (stats_of env w) + misses (stats_of env w)"
  define rate where "rate = (if t > 0 then toFixed2 (js_times (js_divide (of_nat h) (of_nat t)) 100) else ''0.00'')"
  have run: "fetch env request w =
        (Inr \<lparr>body = Json (JObject
           [(''hits'', JNumber h),
            (''misses'', JNumber (misses (stats_of env w))),
            (''lastReset'', JString (lastReset (stats_of env w))),
            (''total'', JNumber t),
            (''hitRate'', JString (rate @ ''%'')),
            (''efficiency'', JString
               (if t > 0
                then string_of_nat h @ ''/'' @ string_of_nat t @ '' requests served from cache''
                else ''No requests yet''))]),
            status = 200, headers = [(''Content-Type'', ''application/json'')]\<rparr>,
         w, [KV_get])"
    using assms
    by (simp add: fetch_def cache_stats_view_def await_def getCacheStats_eq return_def Let_def
        json_response_def h_def t_def rate_def)
  have "if t = 0 then rate = ''0.00''
        else \<exists>n. rate = two_decimals n
              \<and> \<bar>of_nat n / 100 - 100 * of_nat h / of_nat t\<bar> \<le> (1 / 200 + 1 / 10 ^ 13 :: rat)"
  proof (cases "t = 0")
    case True
    then show ?thesis by (simp add: rate_def)
  next
    case False
    then have "0 < t" by simp
    moreover have "h \<le> t" by (simp add: h_def t_def)
    ultimately show ?thesis using False hit_rate_two_decimals[of t h] by (simp add: rate_def)
  qed
  with run have "\<exists>rate.
      fetch env request w =
        (Inr \<lparr>body = Json (JObject
           [(''hits'', JNumber h),
            (''misses'', JNumber (misses (stats_of env w))),
            (''lastReset'', JString (lastReset (stats_of env w))),
            (''total'', JNumber t),
            (''hitRate'', JString (rate @ ''%'')),
            (''efficiency'', JString
               (if t > 0
                then string_of_nat h @ ''/'' @ string_of_nat t @ '' requests served from cache''
                else ''No requests yet''))]),
            status = 200, headers = [(''Content-Type'', ''application/json'')]\<rparr>,
         w, [KV_get])
      \<and> (if t = 0 then rate = ''0.00''
         else \<exists>n. rate = two_decimals n
                \<and> \<bar>of_nat n / 100 - 100 * of_nat h / of_nat t\<bar> \<le> (1 / 200 + 1 / 10 ^ 13 :: rat))"
    by blast
  then show ?thesis unfolding h_def t_def using ex_stats_view by simp
qed


theorem C6_stats_view_witness:
  "pathname ex_request_stats = ''/cache-stats'' \<and> \<not> kv_get_rejects ex_env
   \<and> fetch ex_env ex_request_stats ex_world_empty =
     (Inr \<lparr>body = Json (JObject
        [(''hits'', JNumber 0), (''misses'', JNumber 0),
         (''lastReset'', JString ''2024-01-15T10:30:00.000Z''),
         (''total'', JNumber 0), (''hitRate'', JString ''0.00%''),
         (''efficiency'', JString ''No requests yet'')]),
             status = 200, headers = [(''Content-Type'', ''application/json'')]\<rparr>,
      ex_world_empty, [KV_get])
   \<and> (\<exists>n. ''78.95'' = two_decimals n \<and> \<bar>of_nat n / 100 - 100 * 45 / 57\<bar> \<le> (1 / 200 + 1 / 10 ^ 13 :: rat))"
proof -
  have p: "pathname ex_request_stats = ''/cache-stats''" by (simp add: ex_request_stats_def)
  have g: "\<not> kv_get_rejects ex_env" by (simp add: ex_env_def)
  have s0: "stats_of ex_env ex_world_empty = \<lparr>hits = 0, misses = 0, lastReset = ''2024-01-15T10:30:00.000Z''\<rparr>"
    by (simp add: stats_of_def ex_world_empty_def ex_env_def)
  have s1: "stats_of ex_env ex_world = \<lparr>hits = 45, misses = 12, lastReset = ''2024-01-01T00:00:00.000Z''\<rparr>"
    by (simp add: stats_of_def ex_world_def)
  from C6_stats_view [OF p g, of ex_world_empty, THEN conjunct1] have zero: "fetch ex_env ex_request_stats ex_world_empty =
     (Inr \<lparr>body = Json (JObject
        [(''hits'', JNumber 0), (''misses'', JNumber 0),
         (''lastReset'', JString ''2024-01-15T10:30:00.000Z''),
         (''total'', JNumber 0), (''hitRate'', JString ''0.00%''),
         (''efficiency'', JString ''No requests yet'')]),
             status = 200, headers = [(''Content-Type'', ''application/json'')]\<rparr>,
      ex_world_empty, [KV_get])"
    by (auto simp: s0)
  from C6_stats_view [OF p g, of ex_world, THEN conjunct1] obtain rate where
    r: "fetch ex_env ex_request_stats ex_world =
     (Inr \<lparr>body = Json (JObject
        [(''hits'', JNumber 45), (''misses'', JNumber 12),
         (''lastReset'', JString ''2024-01-01T00:00:00.000Z''),
         (''total'', JNumber 57), (''hitRate'', JString (rate @ ''%'')),
         (''efficiency'', JString (string_of_nat 45 @ ''/'' @ string_of_nat 57 @ '' requests served from cache''))]),
             status = 200, headers = [(''Content-Type'', ''application/json'')]\<rparr>,
      ex_world, [KV_get])"
    and b: "\<exists>n. rate = two_decimals n \<and> \<bar>of_nat n / 100 - 100 * 45 / 57\<bar> \<le> (1 / 200 + 1 / 10 ^ 13 :: rat)"
    by (auto simp: s1)
  from r ex_stats_view have "rate = ''78.95''" by simp
  with b p g zero show ?thesis by simp
qed

end
